theory Spec2Isabelle
  imports Complex_Main
begin

section \<open>JavaScript values used by \<^verbatim>\<open>static/js/app.js\<close>\<close>

text \<open>
  A JavaScript string is a sequence of UTF-16 code units; \<open>lit\<close> turns an ASCII literal of
  the source into one.  The text of a template literal keeps its line breaks and its
  indentation: \<open>line k s\<close> is a line break, \<open>k\<close> spaces and the text \<open>s\<close>.
\<close>

type_synonym jstring = "nat list"

definition lit :: "string \<Rightarrow> jstring" where
  \<open>lit s = map of_char s\<close>

definition line :: "nat \<Rightarrow> string \<Rightarrow> jstring" where
  \<open>line k s = 10 # replicate k 32 @ lit s\<close>

definition apos :: jstring where
  \<open>apos = [39]\<close>

text \<open>The two rating glyphs of the source, U+2605 and U+2606.\<close>

definition star :: jstring where
  \<open>star = [9733]\<close>

definition hollow :: jstring where
  \<open>hollow = [9734]\<close>

datatype js_error = HttpError nat | NetworkError | SyntaxError | TypeError | RangeError

text \<open>
  \<^verbatim>\<open>String.prototype.repeat\<close>: a negative count raises a RangeError.  (An engine also
  raises a RangeError when the result is too long; in both templates that use it the second
  call then has a negative count, so the outcome of the template is the same.)
\<close>

definition js_repeat :: "jstring \<Rightarrow> int \<Rightarrow> js_error + jstring" where
  \<open>js_repeat s n = (if n < 0 then Inl RangeError else Inr (concat (replicate (nat n) s)))\<close>

text \<open>\<^verbatim>\<open>Array.prototype.join\<close> on an array of strings.\<close>

fun js_join :: "jstring \<Rightarrow> jstring list \<Rightarrow> jstring" where
  \<open>js_join sep [] = []\<close>
| \<open>js_join sep [x] = x\<close>
| \<open>js_join sep (x # y # ys) = x @ sep @ js_join sep (y # ys)\<close>

text \<open>
  \<^verbatim>\<open>String.prototype.trim\<close> strips the white space and line terminators of ECMAScript
  from both ends.
\<close>

definition is_js_space :: "nat \<Rightarrow> bool" where
  \<open>is_js_space c \<longleftrightarrow>
     c \<in> {9, 10, 11, 12, 13, 32, 160, 5760, 8232, 8233, 8239, 8287, 12288, 65279}
     \<or> (8192 \<le> c \<and> c \<le> 8202)\<close>

definition js_trim :: "jstring \<Rightarrow> jstring" where
  \<open>js_trim s = rev (dropWhile is_js_space (rev (dropWhile is_js_space s)))\<close>

text \<open>
  Numbers are the finite IEEE-754 doubles, here the rationals they denote.  \<open>Math.floor\<close>
  and \<open>Math.round\<close> are exact on them; the conversion of a number to a string and the
  rounded product of two doubles are primitives of the language and are parameters of
  the model.
\<close>

record js_number_ops =
  num_str :: "rat \<Rightarrow> jstring"
  fmul :: "rat \<Rightarrow> rat \<Rightarrow> rat"

definition js_round :: "rat \<Rightarrow> int" where
  \<open>js_round x = \<lfloor>x + 1 / 2\<rfloor>\<close>

text \<open>Evaluating a callback over an array stops at the first exception.\<close>

fun map_throwing :: "('a \<Rightarrow> js_error + 'b) \<Rightarrow> 'a list \<Rightarrow> js_error + 'b list" where
  \<open>map_throwing f [] = Inr []\<close>
| \<open>map_throwing f (x # xs) =
     (case f x of
        Inl e \<Rightarrow> Inl e
      | Inr y \<Rightarrow> (case map_throwing f xs of Inl e \<Rightarrow> Inl e | Inr ys \<Rightarrow> Inr (y # ys)))\<close>

text \<open>The values handed to \<^verbatim>\<open>JSON.stringify\<close> as request bodies.\<close>

datatype json = JNull | JNum rat | JStr jstring | JObj "(jstring \<times> json) list"


section \<open>Data model of the responses\<close>

text \<open>
  The JSON shapes of the backend.  A field that the code guards with \<^verbatim>\<open>||\<close> or
  \<^verbatim>\<open>?:\<close> may be absent (\<open>None\<close>); so may every payload field of a response envelope,
  and reading a property of an absent payload raises a TypeError.
\<close>

record product =
  product_id :: jstring
  name :: jstring
  description :: jstring
  price :: rat
  category :: jstring
  rating :: rat
  brand :: jstring
  features :: "jstring list option"
  emotion_tags :: "jstring list option"
  image_url :: "jstring option"

record extra_info =
  confidence_score :: "rat option"
  explanation :: "jstring option"
  recommendation_reason :: "jstring option"

record recommendation = extra_info +
  rec_product :: product

record similar_item =
  item_product :: product
  similarity_score :: rat

record search_result = similar_item +
  result_explanation :: jstring

record sentiment_result =
  primary_emotion :: jstring
  mood_category :: jstring
  emotion_intensity :: rat
  shopping_motivation :: jstring

record response =
  success :: bool
  sentiment :: "sentiment_result option"
  recommendations :: "recommendation list option"
  results :: "search_result list option"
  products :: "product list option"
  target_product :: "product option"
  similar_products :: "similar_item list option"


section \<open>Rendering\<close>

definition renderEmotionIndicators :: "jstring list \<Rightarrow> jstring" where
  \<open>renderEmotionIndicators emotions =
     concat (map (\<lambda>emotion.
       lit ''<span class="emotion-indicator emotion-'' @ emotion @ lit ''">'' @ emotion
       @ lit ''</span>'') emotions)\<close>

text \<open>\<^verbatim>\<open>product.emotion_tags || []\<close>: an array, even an empty one, is truthy.\<close>

definition tags_or_empty :: "jstring list option \<Rightarrow> jstring list" where
  \<open>tags_or_empty t = (case t of None \<Rightarrow> [] | Some ts \<Rightarrow> ts)\<close>

text \<open>
  The three conditional parts of the card, lines 95, 96 and 114 to 118.  The number \<open>0\<close>,
  the empty string and an absent value are all falsy.
\<close>

definition confidence_class :: "rat option \<Rightarrow> jstring" where
  \<open>confidence_class cs =
     (case cs of
        None \<Rightarrow> []
      | Some c \<Rightarrow> if c \<noteq> 0 then lit ''recommendation-card'' else [])\<close>

definition confidence_badge :: "js_number_ops \<Rightarrow> rat option \<Rightarrow> jstring" where
  \<open>confidence_badge nm cs =
     (case cs of
        None \<Rightarrow> []
      | Some c \<Rightarrow>
          if c \<noteq> 0
          then lit ''<div class="confidence-score">''
               @ num_str nm (of_int (js_round (fmul nm c 100)))
               @ lit ''% match</div>''
          else [])\<close>

definition explanation_block :: "jstring option \<Rightarrow> jstring" where
  \<open>explanation_block ex =
     (case ex of
        None \<Rightarrow> []
      | Some s \<Rightarrow>
          if s \<noteq> []
          then line 28 ''<div class="alert alert-light p-2 mb-3">''
               @ line 32 ''<small><i class="bi bi-lightbulb text-warning"></i> ''
               @ s
               @ lit ''</small>''
               @ line 28 ''</div>''
               @ line 24 ''''
          else [])\<close>

text \<open>
  \<open>renderProductCard\<close>, lines 90 to 135.  The template is cut at the rating line:
  \<open>card_upper\<close> is its text up to \<^verbatim>\<open><span class="text-warning ms-2">\<close> (lines 94 to 104),
  \<open>card_lower\<close> its text from the closing \<^verbatim>\<open></span>\<close> on (lines 107 to 134).  Only the
  two \<^verbatim>\<open>repeat\<close> calls of line 105 can raise, so they are evaluated first.
\<close>

definition card_upper :: "js_number_ops \<Rightarrow> product \<Rightarrow> extra_info \<Rightarrow> jstring" where
  \<open>card_upper nm product extraInfo =
     line 12 ''<div class="col-md-6 col-lg-4 mb-4">''
     @ line 16 ''<div class="card product-card h-100 ''
     @ confidence_class (confidence_score extraInfo)
     @ lit ''">''
     @ line 20 ''''
     @ confidence_badge nm (confidence_score extraInfo)
     @ line 20 ''<div class="card-body">''
     @ line 24 ''<h5 class="card-title">''
     @ name product
     @ lit ''</h5>''
     @ line 24 ''<p class="card-text text-muted">''
     @ description product
     @ lit ''</p>''
     @ line 24 ''''
     @ line 24 ''<div class="mb-2">''
     @ line 28 ''<small class="text-muted">Category: ''
     @ category product
     @ lit ''</small><br>''
     @ line 28 ''<strong class="text-success">$''
     @ num_str nm (price product)
     @ lit ''</strong>''
     @ line 28 ''<span class="text-warning ms-2">''\<close>

definition card_lower :: "product \<Rightarrow> extra_info \<Rightarrow> jstring" where
  \<open>card_lower product extraInfo =
     line 28 ''</span>''
     @ line 24 ''</div>''
     @ line 24 ''''
     @ line 24 ''<div class="mb-3">''
     @ line 28 ''''
     @ renderEmotionIndicators (tags_or_empty (emotion_tags product))
     @ line 24 ''</div>''
     @ line 24 ''''
     @ line 24 ''''
     @ explanation_block (explanation extraInfo)
     @ line 24 ''''
     @ line 24 ''<div class="d-flex gap-2 mt-auto">''
     @ line 28 ''<button class="btn btn-primary btn-sm flex-fill" onclick="app.viewProduct(''
     @ apos
     @ product_id product
     @ apos
     @ lit '')">''
     @ line 32 ''<i class="bi bi-eye"></i> View''
     @ line 28 ''</button>''
     @ line 28 ''<button class="btn btn-outline-success btn-sm" onclick="app.trackInteraction(''
     @ apos
     @ product_id product
     @ apos
     @ lit '', ''
     @ apos
     @ lit ''like''
     @ apos
     @ lit '')">''
     @ line 32 ''<i class="bi bi-heart"></i>''
     @ line 28 ''</button>''
     @ line 28 ''<button class="btn btn-outline-primary btn-sm" onclick="app.trackInteraction(''
     @ apos
     @ product_id product
     @ apos
     @ lit '', ''
     @ apos
     @ lit ''add_to_cart''
     @ apos
     @ lit '')">''
     @ line 32 ''<i class="bi bi-cart-plus"></i>''
     @ line 28 ''</button>''
     @ line 24 ''</div>''
     @ line 20 ''</div>''
     @ line 16 ''</div>''
     @ line 12 ''</div>''
     @ line 8 ''''\<close>

definition renderProductCard :: "js_number_ops \<Rightarrow> product \<Rightarrow> extra_info \<Rightarrow> js_error + jstring" where
  \<open>renderProductCard nm product extraInfo =
     (case js_repeat star \<lfloor>rating product\<rfloor> of
        Inl e \<Rightarrow> Inl e
      | Inr filled \<Rightarrow>
          (case js_repeat hollow (5 - \<lfloor>rating product\<rfloor>) of
             Inl e \<Rightarrow> Inl e
           | Inr unfilled \<Rightarrow>
               Inr (card_upper nm product extraInfo
                    @ line 32 ''''
                    @ filled
                    @ unfilled
                    @ line 32 ''''
                    @ num_str nm (rating product)
                    @ card_lower product extraInfo)))\<close>

text \<open>The default \<^verbatim>\<open>extraInfo = {}\<close>: every destructured field is undefined.\<close>

definition no_extra :: extra_info where
  \<open>no_extra = \<lparr>confidence_score = None, explanation = None, recommendation_reason = None\<rparr>\<close>


section \<open>The browser: storage, page, network and observable events\<close>

datatype http_method = GET | POST

record request =
  url :: jstring
  http_method :: http_method
  headers :: "(jstring \<times> jstring) list"
  body :: "json option"

text \<open>
  What the user or the backend can observe, in the order it happens.  \<open>body\<close> holds the
  value that \<^verbatim>\<open>JSON.stringify\<close> serialises into the request.
\<close>

datatype event =
    Fetch request
  | ConsoleError jstring js_error
  | Alert jstring
  | StorageSet jstring jstring
  | ModalShow
  | ScrollIntoView

record app_state =
  userId :: jstring
  apiBase :: jstring
  currentEmotion :: "jstring option"

text \<open>The properties of the elements of section 6 of the specification that the code touches.\<close>

record dom =
  moodInput_value :: jstring
  analyzeMoodBtn_disabled :: bool
  analyzeMoodBtn_innerHTML :: jstring
  sentimentAnalysis_innerHTML :: jstring
  recommendationsList_innerHTML :: jstring
  recommendationsSection_display :: jstring
  searchInput_value :: jstring
  searchBtn_disabled :: bool
  searchBtn_innerHTML :: jstring
  searchResults_innerHTML :: jstring
  productsList_innerHTML :: jstring
  modalTitle_textContent :: jstring
  modalBody_innerHTML :: jstring

record world =
  app :: app_state
  page :: dom
  localStorage :: "jstring \<rightharpoonup> jstring"
  trace :: "event list"

definition emit :: "event \<Rightarrow> world \<Rightarrow> world" where
  \<open>emit e w = w\<lparr>trace := trace w @ [e]\<rparr>\<close>

definition fetches :: "event list \<Rightarrow> request list" where
  \<open>fetches evs = concat (map (\<lambda>e. case e of Fetch r \<Rightarrow> [r] | _ \<Rightarrow> []) evs)\<close>

definition alerts :: "event list \<Rightarrow> jstring list" where
  \<open>alerts evs = concat (map (\<lambda>e. case e of Alert m \<Rightarrow> [m] | _ \<Rightarrow> []) evs)\<close>

definition console_errors :: "event list \<Rightarrow> (jstring \<times> js_error) list" where
  \<open>console_errors evs = concat (map (\<lambda>e. case e of ConsoleError l x \<Rightarrow> [(l, x)] | _ \<Rightarrow> []) evs)\<close>

definition storage_writes :: "event list \<Rightarrow> (jstring \<times> jstring) list" where
  \<open>storage_writes evs = concat (map (\<lambda>e. case e of StorageSet k v \<Rightarrow> [(k, v)] | _ \<Rightarrow> []) evs)\<close>

text \<open>
  The backend is opaque: the \<open>n\<close>-th request of the page (counting from \<open>0\<close>) is answered by
  \<open>net n\<close>, either with a transport failure or with a status code and a body, \<open>None\<close>
  when the body is not JSON.
\<close>

datatype http_outcome = NetworkFailure | HttpResponse nat "response option"

type_synonym network = "nat \<Rightarrow> request \<Rightarrow> http_outcome"

definition response_ok :: "nat \<Rightarrow> bool" where
  \<open>response_ok status \<longleftrightarrow> 200 \<le> status \<and> status \<le> 299\<close>


section \<open>The client: class \<^verbatim>\<open>EmotionAwareRecommender\<close>\<close>

text \<open>
  \<open>generateUserId\<close>, lines 8 to 12; \<open>rnd\<close> is the string
  \<^verbatim>\<open>Math.random().toString(36)\<close> of this call.
\<close>

definition generateUserId :: "jstring \<Rightarrow> world \<Rightarrow> jstring \<times> world" where
  \<open>generateUserId rnd w =
     (let userId = lit ''user_'' @ take 16 (drop 2 rnd)
      in (userId,
          emit (StorageSet (lit ''userId'') userId)
            (w\<lparr>localStorage := (localStorage w)(lit ''userId'' \<mapsto> userId)\<rparr>)))\<close>

text \<open>The constructor, lines 2 to 6, and \<^verbatim>\<open>const app = new EmotionAwareRecommender()\<close>.\<close>

definition new_EmotionAwareRecommender :: "jstring \<Rightarrow> world \<Rightarrow> world" where
  \<open>new_EmotionAwareRecommender rnd w =
     (let (uid, w1) =
        (case localStorage w (lit ''userId'') of
           None \<Rightarrow> generateUserId rnd w
         | Some stored \<Rightarrow> if stored \<noteq> [] then (stored, w) else generateUserId rnd w)
      in w1\<lparr>app := \<lparr>userId = uid, apiBase = lit ''/api'', currentEmotion = None\<rparr>\<rparr>)\<close>

text \<open>
  \<open>makeRequest\<close>, lines 14 to 33.  \<open>m\<close> and \<open>b\<close> are the \<^verbatim>\<open>method\<close> and \<^verbatim>\<open>body\<close> of
  \<^verbatim>\<open>options\<close>; without a method \<^verbatim>\<open>fetch\<close> sends a GET.  No caller passes headers.
  \<open>api_request\<close> is the argument of \<^verbatim>\<open>fetch\<close>, lines 16 to 22.
\<close>

definition api_request :: "app_state \<Rightarrow> jstring \<Rightarrow> http_method option \<Rightarrow> json option \<Rightarrow> request" where
  \<open>api_request a endpoint m b =
     \<lparr>url = apiBase a @ endpoint,
      http_method = (case m of None \<Rightarrow> GET | Some x \<Rightarrow> x),
      headers = [(lit ''Content-Type'', lit ''application/json'')],
      body = b\<rparr>\<close>

text \<open>
  What the \<^verbatim>\<open>try\<close> block of \<open>makeRequest\<close> makes of the answer: \<^verbatim>\<open>fetch\<close> rejects on a
  transport failure, a status outside 200 to 299 is thrown as an error, and
  \<^verbatim>\<open>response.json()\<close> rejects on a body that is not JSON.
\<close>

definition read_response :: "http_outcome \<Rightarrow> js_error + response" where
  \<open>read_response outcome =
     (case outcome of
        NetworkFailure \<Rightarrow> Inl NetworkError
      | HttpResponse status parsed \<Rightarrow>
          if \<not> response_ok status then Inl (HttpError status)
          else (case parsed of None \<Rightarrow> Inl SyntaxError | Some r \<Rightarrow> Inr r))\<close>

definition makeRequest ::
  "network \<Rightarrow> jstring \<Rightarrow> http_method option \<Rightarrow> json option \<Rightarrow> world \<Rightarrow> (js_error + response) \<times> world" where
  \<open>makeRequest net endpoint m b w =
     (let req = api_request (app w) endpoint m b;
          w1 = emit (Fetch req) w
      in case read_response (net (length (fetches (trace w))) req) of
           Inl error \<Rightarrow> (Inl error, emit (ConsoleError (lit ''API request failed:'') error) w1)
         | Inr r \<Rightarrow> (Inr r, w1))\<close>

definition analyzeMood :: "network \<Rightarrow> jstring \<Rightarrow> world \<Rightarrow> (js_error + response) \<times> world" where
  \<open>analyzeMood net text w =
     makeRequest net (lit ''/analyze-sentiment'') (Some POST)
       (Some (JObj [(lit ''text'', JStr text)])) w\<close>

definition getRecommendations :: "network \<Rightarrow> json \<Rightarrow> world \<Rightarrow> (js_error + response) \<times> world" where
  \<open>getRecommendations net context w =
     makeRequest net (lit ''/recommendations'') (Some POST)
       (Some (JObj [(lit ''user_id'', JStr (userId (app w))),
                    (lit ''context'', context),
                    (lit ''limit'', JNum 8)])) w\<close>

text \<open>An omitted or undefined \<^verbatim>\<open>emotionContext\<close> or \<^verbatim>\<open>emotion\<close> defaults to \<^verbatim>\<open>null\<close>.\<close>

definition json_of_emotion :: "jstring option \<Rightarrow> json" where
  \<open>json_of_emotion e = (case e of None \<Rightarrow> JNull | Some s \<Rightarrow> JStr s)\<close>

definition searchProducts ::
  "network \<Rightarrow> jstring \<Rightarrow> jstring option \<Rightarrow> world \<Rightarrow> (js_error + response) \<times> world" where
  \<open>searchProducts net query emotionContext w =
     makeRequest net (lit ''/search'') (Some POST)
       (Some (JObj [(lit ''query'', JStr query),
                    (lit ''emotion_context'', json_of_emotion emotionContext),
                    (lit ''limit'', JNum 10)])) w\<close>

definition getAllProducts :: "network \<Rightarrow> world \<Rightarrow> (js_error + response) \<times> world" where
  \<open>getAllProducts net w = makeRequest net (lit ''/products'') None None w\<close>

definition trackInteraction ::
  "network \<Rightarrow> jstring \<Rightarrow> jstring \<Rightarrow> jstring option \<Rightarrow> world \<Rightarrow> (js_error + response) \<times> world" where
  \<open>trackInteraction net productId action emotion w =
     makeRequest net (lit ''/track-interaction'') (Some POST)
       (Some (JObj [(lit ''user_id'', JStr (userId (app w))),
                    (lit ''product_id'', JStr productId),
                    (lit ''action'', JStr action),
                    (lit ''emotion'', json_of_emotion emotion)])) w\<close>

definition getSimilarProducts :: "network \<Rightarrow> jstring \<Rightarrow> world \<Rightarrow> (js_error + response) \<times> world" where
  \<open>getSimilarProducts net productId w =
     makeRequest net (lit ''/similar-products/'' @ productId) None None w\<close>


section \<open>The product view flow\<close>

text \<open>A similar-product sub-card, lines 184 to 200.\<close>

definition similar_card :: "js_number_ops \<Rightarrow> similar_item \<Rightarrow> jstring" where
  \<open>similar_card nm item =
     line 32 ''<div class="col-md-4 mb-3">''
     @ line 36 ''<div class="card">''
     @ line 40 ''<div class="card-body p-3">''
     @ line 44 ''<h6 class="card-title">''
     @ name (item_product item)
     @ lit ''</h6>''
     @ line 44 ''<p class="card-text small">''
     @ take 100 (description (item_product item))
     @ lit ''...</p>''
     @ line 44 ''<div class="d-flex justify-content-between align-items-center">''
     @ line 48 ''<strong class="text-success">$''
     @ num_str nm (price (item_product item))
     @ lit ''</strong>''
     @ line 48 ''<span class="similarity-score">''
     @ num_str nm (of_int (js_round (fmul nm (similarity_score item) 100)))
     @ lit ''% similar</span>''
     @ line 44 ''</div>''
     @ line 44 ''<button class="btn btn-sm btn-outline-primary mt-2" onclick="app.viewProduct(''
     @ apos
     @ product_id (item_product item)
     @ apos
     @ lit '')">''
     @ line 48 ''View''
     @ line 44 ''</button>''
     @ line 40 ''</div>''
     @ line 36 ''</div>''
     @ line 32 ''</div>''
     @ line 28 ''''\<close>

text \<open>The "You might also like" part, lines 180 to 202.\<close>

definition similar_section :: "js_number_ops \<Rightarrow> similar_item list \<Rightarrow> jstring" where
  \<open>similar_section nm similarProducts =
     (if length similarProducts > 0
      then line 24 ''<hr class="my-4">''
           @ line 24 ''<h5><i class="bi bi-heart-fill text-danger"></i> You might also like</h5>''
           @ line 24 ''<div class="row">''
           @ line 28 ''''
           @ concat (map (similar_card nm) (take 3 similarProducts))
           @ line 24 ''</div>''
           @ line 20 ''''
      else [])\<close>

text \<open>
  The body of the modal, lines 155 to 203.  The template is evaluated from left to right:
  the \<^verbatim>\<open>repeat\<close> calls of line 167 come before \<^verbatim>\<open>similarProducts.length\<close> of
  line 180, which raises a TypeError when \<^verbatim>\<open>similar_products\<close> is absent.
\<close>

definition modal_body ::
  "js_number_ops \<Rightarrow> product \<Rightarrow> similar_item list option \<Rightarrow> js_error + jstring" where
  \<open>modal_body nm product similarProducts =
     (case js_repeat star \<lfloor>rating product\<rfloor> of
        Inl e \<Rightarrow> Inl e
      | Inr filled \<Rightarrow>
     (case js_repeat hollow (5 - \<lfloor>rating product\<rfloor>) of
        Inl e \<Rightarrow> Inl e
      | Inr unfilled \<Rightarrow>
     (case similarProducts of
        None \<Rightarrow> Inl TypeError
      | Some similar \<Rightarrow>
          Inr (line 20 ''<div class="row">''
               @ line 24 ''<div class="col-md-6">''
               @ line 28 ''<img src="''
               @ (case image_url product of
                    None \<Rightarrow> lit ''/static/images/placeholder.jpg''
                  | Some u \<Rightarrow> if u \<noteq> [] then u else lit ''/static/images/placeholder.jpg'')
               @ lit ''" ''
               @ line 33 ''class="img-fluid rounded" alt="''
               @ name product
               @ lit ''">''
               @ line 24 ''</div>''
               @ line 24 ''<div class="col-md-6">''
               @ line 28 ''<h4>''
               @ name product
               @ lit ''</h4>''
               @ line 28 ''<p class="text-muted">''
               @ description product
               @ lit ''</p>''
               @ line 28 ''<h5 class="text-success">$''
               @ num_str nm (price product)
               @ lit ''</h5>''
               @ line 28 ''<p>''
               @ line 32 ''<span class="text-warning">''
               @ line 36 ''''
               @ filled
               @ unfilled
               @ line 36 ''''
               @ num_str nm (rating product)
               @ line 32 ''</span>''
               @ line 28 ''</p>''
               @ line 28 ''<div class="mb-3">''
               @ line 32 ''''
               @ renderEmotionIndicators (tags_or_empty (emotion_tags product))
               @ line 28 ''</div>''
               @ line 28 ''<p><strong>Brand:</strong> ''
               @ brand product
               @ lit ''</p>''
               @ line 28 ''<p><strong>Category:</strong> ''
               @ category product
               @ lit ''</p>''
               @ line 28 ''''
               @ (case features product of
                    None \<Rightarrow> []
                  | Some fs \<Rightarrow>
                      lit ''<p><strong>Features:</strong> '' @ js_join (lit '', '') fs @ lit ''</p>'')
               @ line 24 ''</div>''
               @ line 20 ''</div>''
               @ line 20 ''''
               @ line 20 ''''
               @ similar_section nm similar
               @ line 16 ''''))))\<close>

text \<open>The \<^verbatim>\<open>catch\<close> block of \<open>viewProduct\<close>, lines 208 to 211.\<close>

definition view_failed :: "js_error \<Rightarrow> world \<Rightarrow> world" where
  \<open>view_failed error w =
     emit (Alert (lit ''Error loading product details. Please try again.''))
       (emit (ConsoleError (lit ''Error viewing product:'') error) w)\<close>

text \<open>\<open>viewProduct\<close>, lines 137 to 212.\<close>

definition viewProduct :: "js_number_ops \<Rightarrow> network \<Rightarrow> jstring \<Rightarrow> world \<Rightarrow> world" where
  \<open>viewProduct nm net productId w =
     (case trackInteraction net productId (lit ''view'') (currentEmotion (app w)) w of
        (Inl error, w1) \<Rightarrow> view_failed error w1
      | (Inr _, w1) \<Rightarrow>
          (case getSimilarProducts net productId w1 of
             (Inl error, w2) \<Rightarrow> view_failed error w2
           | (Inr similarResponse, w2) \<Rightarrow>
               if success similarResponse then
                 (case target_product similarResponse of
                    None \<Rightarrow> view_failed TypeError w2
                  | Some product \<Rightarrow>
                      (let w3 = w2\<lparr>page := (page w2)\<lparr>modalTitle_textContent := name product\<rparr>\<rparr>
                       in case modal_body nm product (similar_products similarResponse) of
                            Inl error \<Rightarrow> view_failed error w3
                          | Inr html \<Rightarrow>
                              emit ModalShow
                                (w3\<lparr>page := (page w3)\<lparr>modalBody_innerHTML := html\<rparr>\<rparr>)))
               else w2))\<close>


section \<open>The mood-to-recommendation flow\<close>

definition analyze_busy_label :: jstring where
  \<open>analyze_busy_label = lit ''<span class="spinner-border spinner-border-sm"></span> Analyzing...''\<close>

definition analyze_default_label :: jstring where
  \<open>analyze_default_label = lit ''<i class="bi bi-magic"></i> Get Personalized Recommendations''\<close>

text \<open>The sentiment summary, lines 242 to 246.\<close>

definition sentiment_summary :: "js_number_ops \<Rightarrow> sentiment_result \<Rightarrow> jstring" where
  \<open>sentiment_summary nm s =
     line 16 ''<h5><i class="bi bi-emoji-smile"></i> We understand you''
     @ apos
     @ lit ''re feeling: ''
     @ primary_emotion s
     @ lit ''</h5>''
     @ line 16 ''<p>Mood: ''
     @ mood_category s
     @ lit '' | Intensity: ''
     @ num_str nm (emotion_intensity s)
     @ lit ''/10</p>''
     @ line 16 ''<p><small>Shopping motivation: ''
     @ shopping_motivation s
     @ lit ''</small></p>''
     @ line 12 ''''\<close>

text \<open>The callback of \<^verbatim>\<open>recommendations.map\<close>, lines 260 to 266.\<close>

definition render_recommendation :: "js_number_ops \<Rightarrow> recommendation \<Rightarrow> js_error + jstring" where
  \<open>render_recommendation nm r =
     renderProductCard nm (rec_product r)
       \<lparr>confidence_score = confidence_score r,
        explanation = explanation r,
        recommendation_reason = recommendation_reason r\<rparr>\<close>

text \<open>
  The \<^verbatim>\<open>try\<close> block of \<open>analyzeMoodAndRecommend\<close>, lines 232 to 276: the exception it
  ends with, if any, and the world it leaves.  \<open>recommend_try\<close> is its second half, from
  the call of \<open>getRecommendations\<close> on (lines 248 to 275).
\<close>

definition recommend_try ::
  "js_number_ops \<Rightarrow> network \<Rightarrow> json \<Rightarrow> world \<Rightarrow> js_error option \<times> world" where
  \<open>recommend_try nm net context w =
     (case getRecommendations net context w of
        (Inl error, w1) \<Rightarrow> (Some error, w1)
      | (Inr recommendationsResponse, w1) \<Rightarrow>
          if success recommendationsResponse then
            (case recommendations recommendationsResponse of
               None \<Rightarrow> (Some TypeError, w1)
             | Some recs \<Rightarrow>
                 (case map_throwing (render_recommendation nm) recs of
                    Inl error \<Rightarrow> (Some error, w1)
                  | Inr cards \<Rightarrow>
                      (None,
                       emit ScrollIntoView
                         (w1\<lparr>page := (page w1)
                            \<lparr>recommendationsList_innerHTML := concat cards,
                             recommendationsSection_display := lit ''block''\<rparr>\<rparr>))))
          else (None, w1))\<close>

definition analyze_try ::
  "js_number_ops \<Rightarrow> network \<Rightarrow> jstring \<Rightarrow> world \<Rightarrow> js_error option \<times> world" where
  \<open>analyze_try nm net moodText w =
     (case analyzeMood net moodText w of
        (Inl error, w1) \<Rightarrow> (Some error, w1)
      | (Inr sentimentResponse, w1) \<Rightarrow>
          if success sentimentResponse then
            (case sentiment sentimentResponse of
               None \<Rightarrow> (Some TypeError, w1)
             | Some s \<Rightarrow>
                 recommend_try nm net
                   (JObj [(lit ''mood'', JStr (primary_emotion s)),
                          (lit ''mood_category'', JStr (mood_category s)),
                          (lit ''user_input'', JStr moodText)])
                   (w1\<lparr>app := (app w1)\<lparr>currentEmotion := Some (primary_emotion s)\<rparr>,
                       page := (page w1)\<lparr>sentimentAnalysis_innerHTML := sentiment_summary nm s\<rparr>\<rparr>))
          else (None, w1))\<close>

text \<open>Lines 228 to 230: the trigger control is disabled and relabelled.\<close>

definition mood_busy :: "world \<Rightarrow> world" where
  \<open>mood_busy w =
     w\<lparr>page := (page w)\<lparr>analyzeMoodBtn_disabled := True,
                           analyzeMoodBtn_innerHTML := analyze_busy_label\<rparr>\<rparr>\<close>

text \<open>\<open>analyzeMoodAndRecommend\<close>, lines 219 to 284.\<close>

definition analyzeMoodAndRecommend :: "js_number_ops \<Rightarrow> network \<Rightarrow> world \<Rightarrow> world" where
  \<open>analyzeMoodAndRecommend nm net w =
     (let moodText = js_trim (moodInput_value (page w)) in
      if moodText = [] then
        emit (Alert (lit ''Please tell us how you'' @ apos @ lit ''re feeling first!'')) w
      else
        (let w0 = mood_busy w;
             w_caught =
               (case analyze_try nm net moodText w0 of
                  (Some error, w1) \<Rightarrow>
                    emit (Alert (lit ''Sorry, something went wrong. Please try again.''))
                      (emit (ConsoleError (lit ''Error:'') error) w1)
                | (None, w1) \<Rightarrow> w1)
         in w_caught\<lparr>page := (page w_caught)\<lparr>analyzeMoodBtn_disabled := False,
                                               analyzeMoodBtn_innerHTML := analyze_default_label\<rparr>\<rparr>))\<close>


section \<open>The search flow\<close>

definition search_busy_label :: jstring where
  \<open>search_busy_label = lit ''<span class="spinner-border spinner-border-sm"></span>''\<close>

definition search_default_label :: jstring where
  \<open>search_default_label = lit ''<i class="bi bi-search"></i> Search''\<close>

text \<open>One search result, lines 311 to 339.\<close>

definition search_result_item :: "js_number_ops \<Rightarrow> search_result \<Rightarrow> jstring" where
  \<open>search_result_item nm result =
     line 24 ''<div class="search-result-item">''
     @ line 28 ''<div class="row">''
     @ line 32 ''<div class="col-md-8">''
     @ line 36 ''<h6>''
     @ name (item_product result)
     @ lit '' ''
     @ line 40 ''<span class="similarity-score">''
     @ num_str nm (of_int (js_round (fmul nm (similarity_score result) 100)))
     @ lit ''% match</span>''
     @ line 36 ''</h6>''
     @ line 36 ''<p class="text-muted mb-2">''
     @ description (item_product result)
     @ lit ''</p>''
     @ line 36 ''<p class="mb-1"><strong class="text-success">$''
     @ num_str nm (price (item_product result))
     @ lit ''</strong></p>''
     @ line 36 ''<div class="mb-2">''
     @ line 40 ''''
     @ renderEmotionIndicators (tags_or_empty (emotion_tags (item_product result)))
     @ line 36 ''</div>''
     @ line 36 ''<div class="alert alert-light p-2">''
     @ line 40 ''<small><i class="bi bi-lightbulb text-warning"></i> ''
     @ result_explanation result
     @ lit ''</small>''
     @ line 36 ''</div>''
     @ line 32 ''</div>''
     @ line 32 ''<div class="col-md-4 text-end">''
     @ line 36 ''<div class="btn-group-vertical">''
     @ line 40 ''<button class="btn btn-primary btn-sm" onclick="app.viewProduct(''
     @ apos
     @ product_id (item_product result)
     @ apos
     @ lit '')">''
     @ line 44 ''<i class="bi bi-eye"></i> View Details''
     @ line 40 ''</button>''
     @ line 40 ''<button class="btn btn-outline-success btn-sm" onclick="app.trackInteraction(''
     @ apos
     @ product_id (item_product result)
     @ apos
     @ lit '', ''
     @ apos
     @ lit ''like''
     @ apos
     @ lit '')">''
     @ line 44 ''<i class="bi bi-heart"></i> Like''
     @ line 40 ''</button>''
     @ line 36 ''</div>''
     @ line 32 ''</div>''
     @ line 28 ''</div>''
     @ line 24 ''</div>''
     @ line 20 ''''\<close>

text \<open>What the search container receives, lines 306 to 341.\<close>

definition search_results_html :: "js_number_ops \<Rightarrow> jstring \<Rightarrow> search_result list \<Rightarrow> jstring" where
  \<open>search_results_html nm query rs =
     (if length rs = 0
      then lit ''<p class="text-muted">No products found matching your search.</p>''
      else line 20 ''<h5>Search Results for "''
           @ query
           @ lit ''"</h5>''
           @ line 20 ''''
           @ concat (map (search_result_item nm) rs)
           @ line 16 '''')\<close>

text \<open>The \<^verbatim>\<open>try\<close> block of \<open>performSearch\<close>, lines 299 to 342.\<close>

definition search_try ::
  "js_number_ops \<Rightarrow> network \<Rightarrow> jstring \<Rightarrow> world \<Rightarrow> js_error option \<times> world" where
  \<open>search_try nm net query w =
     (case searchProducts net query (currentEmotion (app w)) w of
        (Inl error, w1) \<Rightarrow> (Some error, w1)
      | (Inr searchResponse, w1) \<Rightarrow>
          if success searchResponse then
            (case results searchResponse of
               None \<Rightarrow> (Some TypeError, w1)
             | Some rs \<Rightarrow>
                 (None, w1\<lparr>page := (page w1)
                            \<lparr>searchResults_innerHTML := search_results_html nm query rs\<rparr>\<rparr>))
          else (None, w1))\<close>

text \<open>Lines 295 to 297: the trigger control is disabled and relabelled.\<close>

definition search_busy :: "world \<Rightarrow> world" where
  \<open>search_busy w =
     w\<lparr>page := (page w)\<lparr>searchBtn_disabled := True,
                           searchBtn_innerHTML := search_busy_label\<rparr>\<rparr>\<close>

text \<open>\<open>performSearch\<close>, lines 286 to 350.\<close>

definition performSearch :: "js_number_ops \<Rightarrow> network \<Rightarrow> world \<Rightarrow> world" where
  \<open>performSearch nm net w =
     (let query = js_trim (searchInput_value (page w)) in
      if query = [] then emit (Alert (lit ''Please enter a search query!'')) w
      else
        (let w0 = search_busy w;
             w_caught =
               (case search_try nm net query w0 of
                  (Some error, w1) \<Rightarrow>
                    emit (Alert (lit ''Search failed. Please try again.''))
                      (emit (ConsoleError (lit ''Search error:'') error) w1)
                | (None, w1) \<Rightarrow> w1)
         in w_caught\<lparr>page := (page w_caught)\<lparr>searchBtn_disabled := False,
                                               searchBtn_innerHTML := search_default_label\<rparr>\<rparr>))\<close>


section \<open>The catalog load flow\<close>

text \<open>\<open>loadAllProducts\<close>, lines 352 to 369.\<close>

definition loadAllProducts :: "js_number_ops \<Rightarrow> network \<Rightarrow> world \<Rightarrow> world" where
  \<open>loadAllProducts nm net w =
     (let failed = (\<lambda>error w'.
            (emit (ConsoleError (lit ''Error loading products:'') error) w')
              \<lparr>page := (page w')\<lparr>productsList_innerHTML :=
                 lit ''<div class="col-12"><p class="text-danger">Error loading products. Please refresh the page.</p></div>''\<rparr>\<rparr>)
      in case getAllProducts net w of
           (Inl error, w1) \<Rightarrow> failed error w1
         | (Inr resp, w1) \<Rightarrow>
             if success resp then
               (case products resp of
                  None \<Rightarrow> failed TypeError w1
                | Some ps \<Rightarrow>
                    (case map_throwing (\<lambda>product. renderProductCard nm product no_extra) ps of
                       Inl error \<Rightarrow> failed error w1
                     | Inr cards \<Rightarrow>
                         w1\<lparr>page := (page w1)\<lparr>productsList_innerHTML := concat cards\<rparr>\<rparr>))
             else w1)\<close>


section \<open>A session of the page\<close>

text \<open>
  What can happen after the client is constructed: the user types into an input, a flow
  runs, or a method of \<^verbatim>\<open>app\<close> is called, as the \<^verbatim>\<open>onclick\<close> handlers of the cards
  do (nothing there awaits the promise, so a failure goes no further than the log of
  \<open>makeRequest\<close>).  A flow runs to its end before the next action starts.
\<close>

datatype action =
    EnterMood jstring
  | EnterQuery jstring
  | AnalyzeMoodAndRecommend
  | PerformSearch
  | LoadAllProducts
  | ViewProduct jstring
  | TrackInteraction jstring jstring "jstring option"
  | GetRecommendations json

fun perform :: "js_number_ops \<Rightarrow> network \<Rightarrow> action \<Rightarrow> world \<Rightarrow> world" where
  \<open>perform nm net (EnterMood s) w = w\<lparr>page := (page w)\<lparr>moodInput_value := s\<rparr>\<rparr>\<close>
| \<open>perform nm net (EnterQuery s) w = w\<lparr>page := (page w)\<lparr>searchInput_value := s\<rparr>\<rparr>\<close>
| \<open>perform nm net AnalyzeMoodAndRecommend w = analyzeMoodAndRecommend nm net w\<close>
| \<open>perform nm net PerformSearch w = performSearch nm net w\<close>
| \<open>perform nm net LoadAllProducts w = loadAllProducts nm net w\<close>
| \<open>perform nm net (ViewProduct productId) w = viewProduct nm net productId w\<close>
| \<open>perform nm net (TrackInteraction productId act emotion) w =
     snd (trackInteraction net productId act emotion w)\<close>
| \<open>perform nm net (GetRecommendations context) w = snd (getRecommendations net context w)\<close>

fun session :: "js_number_ops \<Rightarrow> network \<Rightarrow> action list \<Rightarrow> world \<Rightarrow> world" where
  \<open>session nm net [] w = w\<close>
| \<open>session nm net (a # as) w = session nm net as (perform nm net a w)\<close>


section \<open>Requests as the backend sees them\<close>

text \<open>
  The request each method of the client hands to \<^verbatim>\<open>fetch\<close>, read off its call of
  \<open>makeRequest\<close>, and the lookup of a field in a JSON request body.
\<close>

definition analyze_request :: "app_state \<Rightarrow> jstring \<Rightarrow> request" where
  \<open>analyze_request a text =
     api_request a (lit ''/analyze-sentiment'') (Some POST) (Some (JObj [(lit ''text'', JStr text)]))\<close>

definition recommendations_request :: "app_state \<Rightarrow> json \<Rightarrow> request" where
  \<open>recommendations_request a context =
     api_request a (lit ''/recommendations'') (Some POST)
       (Some (JObj [(lit ''user_id'', JStr (userId a)),
                    (lit ''context'', context),
                    (lit ''limit'', JNum 8)]))\<close>

definition search_request :: "app_state \<Rightarrow> jstring \<Rightarrow> jstring option \<Rightarrow> request" where
  \<open>search_request a query emotionContext =
     api_request a (lit ''/search'') (Some POST)
       (Some (JObj [(lit ''query'', JStr query),
                    (lit ''emotion_context'', json_of_emotion emotionContext),
                    (lit ''limit'', JNum 10)]))\<close>

definition products_request :: "app_state \<Rightarrow> request" where
  \<open>products_request a = api_request a (lit ''/products'') None None\<close>

definition track_request :: "app_state \<Rightarrow> jstring \<Rightarrow> jstring \<Rightarrow> jstring option \<Rightarrow> request" where
  \<open>track_request a productId act emotion =
     api_request a (lit ''/track-interaction'') (Some POST)
       (Some (JObj [(lit ''user_id'', JStr (userId a)),
                    (lit ''product_id'', JStr productId),
                    (lit ''action'', JStr act),
                    (lit ''emotion'', json_of_emotion emotion)]))\<close>

definition similar_request :: "app_state \<Rightarrow> jstring \<Rightarrow> request" where
  \<open>similar_request a productId = api_request a (lit ''/similar-products/'' @ productId) None None\<close>

text \<open>The context object of lines 249 to 253.\<close>

definition mood_context :: "sentiment_result \<Rightarrow> jstring \<Rightarrow> json" where
  \<open>mood_context s moodText =
     JObj [(lit ''mood'', JStr (primary_emotion s)),
           (lit ''mood_category'', JStr (mood_category s)),
           (lit ''user_input'', JStr moodText)]\<close>

definition body_fields :: "request \<Rightarrow> (jstring \<times> json) list" where
  \<open>body_fields r = (case body r of Some (JObj kvs) \<Rightarrow> kvs | _ \<Rightarrow> [])\<close>

definition body_field :: "request \<Rightarrow> jstring \<Rightarrow> json option" where
  \<open>body_field r k = map_of (body_fields r) k\<close>

text \<open>\<open>makeRequest\<close> seen from the request it sends: \<open>send\<close> is its effect on the world.\<close>

definition send :: "network \<Rightarrow> request \<Rightarrow> world \<Rightarrow> (js_error + response) \<times> world" where
  \<open>send net req w =
     (case read_response (net (length (fetches (trace w))) req) of
        Inl error \<Rightarrow>
          (Inl error, emit (ConsoleError (lit ''API request failed:'') error) (emit (Fetch req) w))
      | Inr r \<Rightarrow> (Inr r, emit (Fetch req) w))\<close>

text \<open>
  A request keeps the identity \<open>uid\<close> when its body has no \<^verbatim>\<open>user_id\<close> or has \<open>uid\<close>
  there.  The world \<open>w\<close> carries on from \<open>v\<close> when it has the identity and the storage of
  \<open>v\<close>, no write to the storage has been added, and every request added keeps the
  identity of \<open>v\<close>.
\<close>

definition request_keeps_identity :: "jstring \<Rightarrow> request \<Rightarrow> bool" where
  \<open>request_keeps_identity uid r \<longleftrightarrow> body_field r (lit ''user_id'') \<in> {None, Some (JStr uid)}\<close>

definition carries_on :: "world \<Rightarrow> world \<Rightarrow> bool" where
  \<open>carries_on v w \<longleftrightarrow>
     userId (app w) = userId (app v)
     \<and> localStorage w = localStorage v
     \<and> storage_writes (trace w) = storage_writes (trace v)
     \<and> (\<exists>rs. fetches (trace w) = fetches (trace v) @ rs
               \<and> list_all (request_keeps_identity (userId (app v))) rs)\<close>


section \<open>Concrete inputs\<close>

text \<open>A product rated 3.2, a page, and backends that answer from a script.\<close>

definition example_numbers :: js_number_ops where
  \<open>example_numbers = \<lparr>num_str = (\<lambda>_. lit ''3.2''), fmul = (\<lambda>x y. x * y)\<rparr>\<close>

definition example_product :: product where
  \<open>example_product =
     \<lparr>product_id = lit ''p1'', name = lit ''Tea'', description = lit ''Green tea'',
      price = 16 / 5, category = lit ''food'', rating = 16 / 5, brand = lit ''Acme'',
      features = None, emotion_tags = None, image_url = None\<rparr>\<close>

definition example_page :: dom where
  \<open>example_page =
     \<lparr>moodInput_value = lit ''happy'',
      analyzeMoodBtn_disabled = False,
      analyzeMoodBtn_innerHTML = analyze_default_label,
      sentimentAnalysis_innerHTML = [],
      recommendationsList_innerHTML = [],
      recommendationsSection_display = lit ''none'',
      searchInput_value = lit ''tea'',
      searchBtn_disabled = False,
      searchBtn_innerHTML = search_default_label,
      searchResults_innerHTML = [],
      productsList_innerHTML = [],
      modalTitle_textContent = [],
      modalBody_innerHTML = []\<rparr>\<close>

definition example_world :: world where
  \<open>example_world =
     \<lparr>app = \<lparr>userId = lit ''user_abc'', apiBase = lit ''/api'', currentEmotion = None\<rparr>,
      page = example_page,
      localStorage = Map.empty,
      trace = []\<rparr>\<close>

definition blank_world :: world where
  \<open>blank_world =
     example_world\<lparr>page := example_page\<lparr>moodInput_value := [32, 9, 160], searchInput_value := []\<rparr>\<rparr>\<close>

definition scripted :: "http_outcome list \<Rightarrow> network" where
  \<open>scripted outcomes n r = (case drop n outcomes of [] \<Rightarrow> NetworkFailure | x # _ \<Rightarrow> x)\<close>

definition empty_response :: response where
  \<open>empty_response =
     \<lparr>success = False, sentiment = None, recommendations = None, results = None,
      products = None, target_product = None, similar_products = None\<rparr>\<close>

definition example_sentiment :: sentiment_result where
  \<open>example_sentiment =
     \<lparr>primary_emotion = lit ''joy'', mood_category = lit ''positive'',
      emotion_intensity = 16 / 5, shopping_motivation = lit ''treat''\<rparr>\<close>

definition sentiment_response :: response where
  \<open>sentiment_response = empty_response\<lparr>success := True, sentiment := Some example_sentiment\<rparr>\<close>

definition example_recommendation :: "product \<Rightarrow> recommendation" where
  \<open>example_recommendation p =
     \<lparr>confidence_score = None, explanation = None, recommendation_reason = None,
      rec_product = p\<rparr>\<close>

definition recommendations_response :: "product list \<Rightarrow> response" where
  \<open>recommendations_response ps =
     empty_response\<lparr>success := True, recommendations := Some (map example_recommendation ps)\<rparr>\<close>


definition similar_response :: response where
  \<open>similar_response =
     empty_response\<lparr>success := True, target_product := Some example_product,
                      similar_products := Some []\<rparr>\<close>

definition overrated_product :: product where
  \<open>overrated_product = example_product\<lparr>rating := 6\<rparr>\<close>

definition recommending_backend :: "product list \<Rightarrow> network" where
  \<open>recommending_backend ps =
     scripted [HttpResponse 200 (Some sentiment_response),
               HttpResponse 200 (Some (recommendations_response ps))]\<close>

definition returning_world :: world where
  \<open>returning_world = example_world\<lparr>localStorage := [lit ''userId'' \<mapsto> lit ''user_abc'']\<rparr>\<close>


section \<open>Basic facts\<close>

subsection \<open>Observers of the trace\<close>

lemma fetches_append [simp]: "fetches (xs @ ys) = fetches xs @ fetches ys"
  by (simp add: fetches_def)

lemma alerts_append [simp]: "alerts (xs @ ys) = alerts xs @ alerts ys"
  by (simp add: alerts_def)

lemma storage_writes_append [simp]: "storage_writes (xs @ ys) = storage_writes xs @ storage_writes ys"
  by (simp add: storage_writes_def)

lemma console_errors_append [simp]: "console_errors (xs @ ys) = console_errors xs @ console_errors ys"
  by (simp add: console_errors_def)

lemma fetches_simps [simp]:
  "fetches [] = []" "fetches (Fetch r # evs) = r # fetches evs"
  "fetches (ConsoleError l e # evs) = fetches evs" "fetches (Alert m # evs) = fetches evs"
  "fetches (StorageSet k v # evs) = fetches evs" "fetches (ModalShow # evs) = fetches evs"
  "fetches (ScrollIntoView # evs) = fetches evs"
  by (simp_all add: fetches_def)

lemma alerts_simps [simp]:
  "alerts [] = []" "alerts (Fetch r # evs) = alerts evs"
  "alerts (ConsoleError l e # evs) = alerts evs" "alerts (Alert m # evs) = m # alerts evs"
  "alerts (StorageSet k v # evs) = alerts evs" "alerts (ModalShow # evs) = alerts evs"
  "alerts (ScrollIntoView # evs) = alerts evs"
  by (simp_all add: alerts_def)

lemma storage_writes_simps [simp]:
  "storage_writes [] = []" "storage_writes (Fetch r # evs) = storage_writes evs"
  "storage_writes (ConsoleError l e # evs) = storage_writes evs" "storage_writes (Alert m # evs) = storage_writes evs"
  "storage_writes (StorageSet k v # evs) = (k, v) # storage_writes evs" "storage_writes (ModalShow # evs) = storage_writes evs"
  "storage_writes (ScrollIntoView # evs) = storage_writes evs"
  by (simp_all add: storage_writes_def)

lemma console_errors_simps [simp]:
  "console_errors [] = []" "console_errors (Fetch r # evs) = console_errors evs"
  "console_errors (ConsoleError l e # evs) = (l, e) # console_errors evs" "console_errors (Alert m # evs) = console_errors evs"
  "console_errors (StorageSet k v # evs) = console_errors evs" "console_errors (ModalShow # evs) = console_errors evs"
  "console_errors (ScrollIntoView # evs) = console_errors evs"
  by (simp_all add: console_errors_def)

lemma emit_simps [simp]:
  "trace (emit e w) = trace w @ [e]" "app (emit e w) = app w" "page (emit e w) = page w"
  "localStorage (emit e w) = localStorage w"
  by (simp_all add: emit_def)


subsection \<open>Requests\<close>

lemma read_response_simps [simp]:
  "read_response NetworkFailure = Inl NetworkError"
  "response_ok st \<Longrightarrow> read_response (HttpResponse st (Some r)) = Inr r"
  "response_ok st \<Longrightarrow> read_response (HttpResponse st None) = Inl SyntaxError"
  "\<not> response_ok st \<Longrightarrow> read_response (HttpResponse st p) = Inl (HttpError st)"
  by (simp_all add: read_response_def)

lemma makeRequest_send: "makeRequest net ep m b w = send net (api_request (app w) ep m b) w"
  by (simp add: makeRequest_def send_def Let_def)

lemma api_send:
  "analyzeMood net text w = send net (analyze_request (app w) text) w"
  "getRecommendations net context w = send net (recommendations_request (app w) context) w"
  "searchProducts net query emo w = send net (search_request (app w) query emo) w"
  "getAllProducts net w = send net (products_request (app w)) w"
  "trackInteraction net productId act emo w = send net (track_request (app w) productId act emo) w"
  "getSimilarProducts net productId w = send net (similar_request (app w) productId) w"
  by (simp_all add: makeRequest_send analyzeMood_def getRecommendations_def searchProducts_def
        getAllProducts_def trackInteraction_def getSimilarProducts_def analyze_request_def
        recommendations_request_def search_request_def products_request_def track_request_def
        similar_request_def)

lemma send_Inr:
  "read_response (net (length (fetches (trace w))) req) = Inr r \<Longrightarrow>
   send net req w = (Inr r, emit (Fetch req) w)"
  by (simp add: send_def)

lemma send_Inl:
  "read_response (net (length (fetches (trace w))) req) = Inl e \<Longrightarrow>
   send net req w = (Inl e, emit (ConsoleError (lit ''API request failed:'') e) (emit (Fetch req) w))"
  by (simp add: send_def)

lemma send_cases:
  "(\<exists>r. send net req w = (Inr r, emit (Fetch req) w))
   \<or> (\<exists>e. send net req w = (Inl e, emit (ConsoleError (lit ''API request failed:'') e) (emit (Fetch req) w)))"
  by (cases "read_response (net (length (fetches (trace w))) req)") (simp_all add: send_def)

lemma send_fetches [simp]: "fetches (trace (snd (send net req w))) = fetches (trace w) @ [req]"
  by (simp add: send_def split: sum.splits)

lemma send_app: "send net req w = (res, w1) \<Longrightarrow> app w1 = app w"
  by (auto simp: send_def split: sum.splits)

lemma request_app_irrelevant [simp]:
  "track_request (a\<lparr>currentEmotion := c\<rparr>) = track_request a"
  "similar_request (a\<lparr>currentEmotion := c\<rparr>) = similar_request a"
  "recommendations_request (a\<lparr>currentEmotion := c\<rparr>) = recommendations_request a"
  "analyze_request (a\<lparr>currentEmotion := c\<rparr>) = analyze_request a"
  "search_request (a\<lparr>currentEmotion := c\<rparr>) = search_request a"
  "products_request (a\<lparr>currentEmotion := c\<rparr>) = products_request a"
  by (simp_all add: fun_eq_iff track_request_def similar_request_def recommendations_request_def
      analyze_request_def search_request_def products_request_def api_request_def)


subsection \<open>Rendering\<close>

lemma floor_rating_range:
  fixes r :: rat
  assumes "0 \<le> r" "r \<le> 5"
  shows "0 \<le> \<lfloor>r\<rfloor> \<and> \<lfloor>r\<rfloor> \<le> 5"
  using assms by (simp add: floor_le_iff le_floor_iff)

lemma renderProductCard_defined:
  "0 \<le> rating p \<Longrightarrow> rating p < 6 \<Longrightarrow> \<exists>card. renderProductCard nm p x = Inr card"
proof -
  assume a: "0 \<le> rating p" "rating p < 6"
  then have "0 \<le> \<lfloor>rating p\<rfloor>" "\<lfloor>rating p\<rfloor> \<le> 5"
    by (simp_all add: floor_le_iff le_floor_iff floor_less_iff)
  then show ?thesis
    by (simp add: renderProductCard_def js_repeat_def)
qed

lemma renderProductCard_RangeError:
  "rating p < 0 \<or> 6 \<le> rating p \<Longrightarrow> renderProductCard nm p x = Inl RangeError"
proof -
  assume "rating p < 0 \<or> 6 \<le> rating p"
  then have "\<lfloor>rating p\<rfloor> < 0 \<or> 6 \<le> \<lfloor>rating p\<rfloor>"
    by (auto simp: floor_less_iff le_floor_iff)
  then show ?thesis
    by (auto simp: renderProductCard_def js_repeat_def)
qed

lemma render_recommendation_defined:
  "0 \<le> rating (rec_product x) \<Longrightarrow> rating (rec_product x) < 6 \<Longrightarrow>
   \<exists>card. render_recommendation nm x = Inr card"
  by (simp add: render_recommendation_def renderProductCard_defined)

lemma card_upper_falsy:
  "card_upper nm p (x\<lparr>confidence_score := Some 0\<rparr>) = card_upper nm p (x\<lparr>confidence_score := None\<rparr>)"
  "card_upper nm p (x\<lparr>explanation := e\<rparr>) = card_upper nm p x"
  by (simp_all add: card_upper_def confidence_class_def confidence_badge_def)

lemma card_lower_falsy:
  "card_lower p (x\<lparr>explanation := Some []\<rparr>) = card_lower p (x\<lparr>explanation := None\<rparr>)"
  "card_lower p (x\<lparr>confidence_score := c\<rparr>) = card_lower p x"
  by (simp_all add: card_lower_def explanation_block_def)

lemma map_throwing_Inr_iff:
  "map_throwing f xs = Inr ys \<longleftrightarrow> list_all2 (\<lambda>x y. f x = Inr y) xs ys"
proof (induction xs arbitrary: ys)
  case Nil
  then show ?case by auto
next
  case (Cons x xs)
  show ?case
  proof (cases "f x")
    case (Inl e)
    then show ?thesis by (auto simp: list_all2_Cons1)
  next
    case (Inr y)
    show ?thesis
    proof (cases "map_throwing f xs")
      case (Inl e)
      with Inr Cons.IH show ?thesis by (auto simp: list_all2_Cons1)
    next
      case r: (Inr zs)
      with Inr Cons.IH show ?thesis by (auto simp: list_all2_Cons1)
    qed
  qed
qed

lemma map_throwing_total:
  "(\<forall>x\<in>set xs. \<exists>y. f x = Inr y) \<Longrightarrow> \<exists>ys. map_throwing f xs = Inr ys"
  by (induction xs) auto

lemma js_trim_blank: "(\<forall>c\<in>set s. is_js_space c) \<Longrightarrow> js_trim s = []"
proof -
  assume "\<forall>c\<in>set s. is_js_space c"
  then have d: "dropWhile is_js_space s = []" by simp
  show ?thesis unfolding js_trim_def d by simp
qed


subsection \<open>The branches of the mood and search flows\<close>

lemma mood_busy_simps [simp]:
  "app (mood_busy w) = app w" "trace (mood_busy w) = trace w" "localStorage (mood_busy w) = localStorage w"
  by (simp_all add: mood_busy_def)

lemma search_busy_simps [simp]:
  "app (search_busy w) = app w" "trace (search_busy w) = trace w" "localStorage (search_busy w) = localStorage w"
  by (simp_all add: search_busy_def)

lemma recommend_try_Inl:
  "read_response (net (length (fetches (trace w))) (recommendations_request (app w) c)) = Inl e \<Longrightarrow>
   recommend_try nm net c w =
     (Some e, emit (ConsoleError (lit ''API request failed:'') e)
                (emit (Fetch (recommendations_request (app w) c)) w))"
  by (simp add: recommend_try_def api_send send_Inl)

lemma recommend_try_unsuccessful:
  "read_response (net (length (fetches (trace w))) (recommendations_request (app w) c)) = Inr r \<Longrightarrow>
   \<not> success r \<Longrightarrow>
   recommend_try nm net c w = (None, emit (Fetch (recommendations_request (app w) c)) w)"
  by (simp add: recommend_try_def api_send send_Inr)

lemma recommend_try_cards:
  "read_response (net (length (fetches (trace w))) (recommendations_request (app w) c)) = Inr r \<Longrightarrow>
   success r \<Longrightarrow> recommendations r = Some recs \<Longrightarrow>
   map_throwing (render_recommendation nm) recs = Inr cards \<Longrightarrow>
   recommend_try nm net c w =
     (None, w\<lparr>page := (page w)\<lparr>recommendationsList_innerHTML := concat cards,
                                  recommendationsSection_display := lit ''block''\<rparr>,
              trace := trace w @ [Fetch (recommendations_request (app w) c), ScrollIntoView]\<rparr>)"
  by (simp add: recommend_try_def api_send send_Inr emit_def)

lemma recommend_try_throws:
  "read_response (net (length (fetches (trace w))) (recommendations_request (app w) c)) = Inr r \<Longrightarrow>
   success r \<Longrightarrow> recommendations r = Some recs \<Longrightarrow>
   map_throwing (render_recommendation nm) recs = Inl e \<Longrightarrow>
   recommend_try nm net c w = (Some e, emit (Fetch (recommendations_request (app w) c)) w)"
  by (simp add: recommend_try_def api_send send_Inr)

lemma analyze_try_Inl:
  "read_response (net (length (fetches (trace w))) (analyze_request (app w) t)) = Inl e \<Longrightarrow>
   analyze_try nm net t w =
     (Some e, emit (ConsoleError (lit ''API request failed:'') e)
                (emit (Fetch (analyze_request (app w) t)) w))"
  by (simp add: analyze_try_def api_send send_Inl)

lemma analyze_try_unsuccessful:
  "read_response (net (length (fetches (trace w))) (analyze_request (app w) t)) = Inr r \<Longrightarrow>
   \<not> success r \<Longrightarrow>
   analyze_try nm net t w = (None, emit (Fetch (analyze_request (app w) t)) w)"
  by (simp add: analyze_try_def api_send send_Inr)

lemma analyze_try_sentiment:
  "read_response (net (length (fetches (trace w))) (analyze_request (app w) t)) = Inr r \<Longrightarrow>
   success r \<Longrightarrow> sentiment r = Some s \<Longrightarrow>
   analyze_try nm net t w =
     recommend_try nm net (mood_context s t)
       ((emit (Fetch (analyze_request (app w) t)) w)
          \<lparr>app := (app w)\<lparr>currentEmotion := Some (primary_emotion s)\<rparr>,
           page := (page w)\<lparr>sentimentAnalysis_innerHTML := sentiment_summary nm s\<rparr>\<rparr>)"
  by (simp add: analyze_try_def api_send send_Inr mood_context_def)

lemma mood_flow_blank:
  "js_trim (moodInput_value (page w)) = [] \<Longrightarrow>
   analyzeMoodAndRecommend nm net w =
     emit (Alert (lit ''Please tell us how you'' @ apos @ lit ''re feeling first!'')) w"
  by (simp add: analyzeMoodAndRecommend_def)

lemma mood_flow_error:
  "js_trim (moodInput_value (page w)) = t \<Longrightarrow> t \<noteq> [] \<Longrightarrow>
   analyze_try nm net t (mood_busy w) = (Some e, w1) \<Longrightarrow>
   analyzeMoodAndRecommend nm net w =
     (emit (Alert (lit ''Sorry, something went wrong. Please try again.''))
        (emit (ConsoleError (lit ''Error:'') e) w1))
      \<lparr>page := (page w1)\<lparr>analyzeMoodBtn_disabled := False,
                             analyzeMoodBtn_innerHTML := analyze_default_label\<rparr>\<rparr>"
  by (simp add: analyzeMoodAndRecommend_def Let_def)

lemma mood_flow_normal:
  "js_trim (moodInput_value (page w)) = t \<Longrightarrow> t \<noteq> [] \<Longrightarrow>
   analyze_try nm net t (mood_busy w) = (None, w1) \<Longrightarrow>
   analyzeMoodAndRecommend nm net w =
     w1\<lparr>page := (page w1)\<lparr>analyzeMoodBtn_disabled := False,
                            analyzeMoodBtn_innerHTML := analyze_default_label\<rparr>\<rparr>"
  by (simp add: analyzeMoodAndRecommend_def Let_def)

lemma mood_flow_button:
  "js_trim (moodInput_value (page w)) \<noteq> [] \<Longrightarrow>
   \<not> analyzeMoodBtn_disabled (page (analyzeMoodAndRecommend nm net w))
   \<and> analyzeMoodBtn_innerHTML (page (analyzeMoodAndRecommend nm net w)) = analyze_default_label"
  by (simp add: analyzeMoodAndRecommend_def Let_def split: prod.splits option.splits)

lemma search_try_Inl:
  "read_response (net (length (fetches (trace w))) (search_request (app w) q (currentEmotion (app w)))) = Inl e \<Longrightarrow>
   search_try nm net q w =
     (Some e, emit (ConsoleError (lit ''API request failed:'') e)
                (emit (Fetch (search_request (app w) q (currentEmotion (app w)))) w))"
  by (simp add: search_try_def api_send send_Inl)

lemma search_try_unsuccessful:
  "read_response (net (length (fetches (trace w))) (search_request (app w) q (currentEmotion (app w)))) = Inr r \<Longrightarrow>
   \<not> success r \<Longrightarrow>
   search_try nm net q w = (None, emit (Fetch (search_request (app w) q (currentEmotion (app w)))) w)"
  by (simp add: search_try_def api_send send_Inr)

lemma search_flow_blank:
  "js_trim (searchInput_value (page w)) = [] \<Longrightarrow>
   performSearch nm net w = emit (Alert (lit ''Please enter a search query!'')) w"
  by (simp add: performSearch_def)

lemma search_flow_error:
  "js_trim (searchInput_value (page w)) = q \<Longrightarrow> q \<noteq> [] \<Longrightarrow>
   search_try nm net q (search_busy w) = (Some e, w1) \<Longrightarrow>
   performSearch nm net w =
     (emit (Alert (lit ''Search failed. Please try again.''))
        (emit (ConsoleError (lit ''Search error:'') e) w1))
      \<lparr>page := (page w1)\<lparr>searchBtn_disabled := False,
                             searchBtn_innerHTML := search_default_label\<rparr>\<rparr>"
  by (simp add: performSearch_def Let_def)

lemma search_flow_normal:
  "js_trim (searchInput_value (page w)) = q \<Longrightarrow> q \<noteq> [] \<Longrightarrow>
   search_try nm net q (search_busy w) = (None, w1) \<Longrightarrow>
   performSearch nm net w =
     w1\<lparr>page := (page w1)\<lparr>searchBtn_disabled := False,
                            searchBtn_innerHTML := search_default_label\<rparr>\<rparr>"
  by (simp add: performSearch_def Let_def)

lemma search_flow_button:
  "js_trim (searchInput_value (page w)) \<noteq> [] \<Longrightarrow>
   \<not> searchBtn_disabled (page (performSearch nm net w))
   \<and> searchBtn_innerHTML (page (performSearch nm net w)) = search_default_label"
  by (simp add: performSearch_def Let_def split: prod.splits option.splits)


subsection \<open>The identity through a session\<close>

lemma carries_on_refl [simp]: "carries_on v v"
  by (simp add: carries_on_def)

lemma carries_on_emit:
  "carries_on v w \<Longrightarrow> carries_on v (emit (ConsoleError l e) w)"
  "carries_on v w \<Longrightarrow> carries_on v (emit (Alert m) w)"
  "carries_on v w \<Longrightarrow> carries_on v (emit ModalShow w)"
  "carries_on v w \<Longrightarrow> carries_on v (emit ScrollIntoView w)"
  "carries_on v w \<Longrightarrow> request_keeps_identity (userId (app v)) r \<Longrightarrow> carries_on v (emit (Fetch r) w)"
  by (auto simp: carries_on_def)

lemma carries_on_update [simp]:
  "carries_on v (w\<lparr>page := p\<rparr>) = carries_on v w"
  "carries_on v (w\<lparr>app := (app w)\<lparr>currentEmotion := c\<rparr>\<rparr>) = carries_on v w"
  "carries_on v (w\<lparr>app := (app w)\<lparr>currentEmotion := c\<rparr>, page := p\<rparr>) = carries_on v w"
  by (simp_all add: carries_on_def)

lemma busy_carries_on [simp]:
  "carries_on v (mood_busy w) = carries_on v w" "carries_on v (search_busy w) = carries_on v w"
  by (simp_all add: mood_busy_def search_busy_def)

lemma carries_on_userId: "carries_on v w \<Longrightarrow> userId (app w) = userId (app v)"
  by (simp add: carries_on_def)

lemma request_identity:
  "request_keeps_identity uid (analyze_request a t)"
  "userId a = uid \<Longrightarrow> request_keeps_identity uid (recommendations_request a c)"
  "request_keeps_identity uid (search_request a q em)"
  "request_keeps_identity uid (products_request a)"
  "userId a = uid \<Longrightarrow> request_keeps_identity uid (track_request a p act em)"
  "request_keeps_identity uid (similar_request a p)"
  by (simp_all add: request_keeps_identity_def body_field_def body_fields_def analyze_request_def
        recommendations_request_def search_request_def products_request_def track_request_def
        similar_request_def api_request_def lit_def)

lemma send_carries_on:
  "send net req w = (res, w1) \<Longrightarrow> carries_on v w \<Longrightarrow>
   request_keeps_identity (userId (app v)) req \<Longrightarrow> carries_on v w1"
  by (auto simp: send_def carries_on_emit split: sum.splits)

lemma viewProduct_carries_on:
  assumes "carries_on v w"
  shows "carries_on v (viewProduct nm net productId w)"
proof -
  have t: "request_keeps_identity (userId (app v))
             (track_request (app w) productId (lit ''view'') (currentEmotion (app w)))"
    using assms by (simp add: request_identity carries_on_userId)
  show ?thesis
    using assms t
    by (auto simp: viewProduct_def api_send view_failed_def Let_def carries_on_emit request_identity
          split: prod.splits sum.splits option.splits
          dest: send_carries_on)
qed

lemma recommend_try_carries_on:
  assumes "carries_on v w"
  shows "carries_on v (snd (recommend_try nm net c w))"
proof -
  have t: "request_keeps_identity (userId (app v)) (recommendations_request (app w) c)"
    using assms by (simp add: request_identity carries_on_userId)
  show ?thesis
    using assms t
    by (auto simp: recommend_try_def api_send carries_on_emit
          split: prod.splits sum.splits option.splits dest: send_carries_on)
qed

lemma analyze_try_carries_on:
  assumes "carries_on v w"
  shows "carries_on v (snd (analyze_try nm net t w))"
  using assms
  by (auto simp: analyze_try_def api_send request_identity
        split: prod.splits sum.splits option.splits
        dest: send_carries_on intro!: recommend_try_carries_on)

lemma search_try_carries_on:
  assumes "carries_on v w"
  shows "carries_on v (snd (search_try nm net q w))"
  using assms
  by (auto simp: search_try_def api_send request_identity
        split: prod.splits sum.splits option.splits dest: send_carries_on)

lemma analyzeMoodAndRecommend_carries_on:
  assumes "carries_on v w"
  shows "carries_on v (analyzeMoodAndRecommend nm net w)"
proof (cases "js_trim (moodInput_value (page w)) = []")
  case True
  with assms show ?thesis by (simp add: mood_flow_blank carries_on_emit)
next
  case False
  from analyze_try_carries_on [of v "mood_busy w" nm net "js_trim (moodInput_value (page w))"] assms
  have "carries_on v (snd (analyze_try nm net (js_trim (moodInput_value (page w))) (mood_busy w)))"
    by simp
  with False show ?thesis
    by (auto simp: analyzeMoodAndRecommend_def Let_def carries_on_emit split: prod.splits option.splits)
qed

lemma performSearch_carries_on:
  assumes "carries_on v w"
  shows "carries_on v (performSearch nm net w)"
proof (cases "js_trim (searchInput_value (page w)) = []")
  case True
  with assms show ?thesis by (simp add: search_flow_blank carries_on_emit)
next
  case False
  from search_try_carries_on [of v "search_busy w" nm net "js_trim (searchInput_value (page w))"] assms
  have "carries_on v (snd (search_try nm net (js_trim (searchInput_value (page w))) (search_busy w)))"
    by simp
  with False show ?thesis
    by (auto simp: performSearch_def Let_def carries_on_emit split: prod.splits option.splits)
qed

lemma loadAllProducts_carries_on:
  assumes "carries_on v w"
  shows "carries_on v (loadAllProducts nm net w)"
  using assms
  by (auto simp: loadAllProducts_def api_send request_identity Let_def carries_on_emit
        split: prod.splits sum.splits option.splits dest: send_carries_on)

lemma perform_carries_on:
  assumes "carries_on v w"
  shows "carries_on v (perform nm net a w)"
proof (cases a)
  case (TrackInteraction p act em)
  have "request_keeps_identity (userId (app v)) (track_request (app w) p act em)"
    using assms by (simp add: request_identity carries_on_userId)
  with assms TrackInteraction show ?thesis
    by (auto simp: api_send dest: send_carries_on [OF surjective_pairing])
next
  case (GetRecommendations c)
  have "request_keeps_identity (userId (app v)) (recommendations_request (app w) c)"
    using assms by (simp add: request_identity carries_on_userId)
  with assms GetRecommendations show ?thesis
    by (auto simp: api_send dest: send_carries_on [OF surjective_pairing])
qed (simp_all add: assms analyzeMoodAndRecommend_carries_on performSearch_carries_on
       loadAllProducts_carries_on viewProduct_carries_on)

lemma session_carries_on:
  "carries_on v w \<Longrightarrow> carries_on v (session nm net acts w)"
  by (induction acts arbitrary: w) (simp_all add: perform_carries_on)

lemma session_keeps:
  "userId (app (session nm net acts v)) = userId (app v)"
  "localStorage (session nm net acts v) = localStorage v"
  "storage_writes (trace (session nm net acts v)) = storage_writes (trace v)"
  "list_all (request_keeps_identity (userId (app v)))
     (drop (length (fetches (trace v))) (fetches (trace (session nm net acts v))))"
proof -
  have c: "carries_on v (session nm net acts v)"
    by (simp add: session_carries_on)
  then show "userId (app (session nm net acts v)) = userId (app v)"
    "localStorage (session nm net acts v) = localStorage v"
    "storage_writes (trace (session nm net acts v)) = storage_writes (trace v)"
    by (simp_all add: carries_on_def)
  from c obtain rs where "fetches (trace (session nm net acts v)) = fetches (trace v) @ rs"
    "list_all (request_keeps_identity (userId (app v))) rs"
    by (auto simp: carries_on_def)
  then show "list_all (request_keeps_identity (userId (app v)))
     (drop (length (fetches (trace v))) (fetches (trace (session nm net acts v))))"
    by simp
qed

lemma constructor_fresh:
  assumes "localStorage w (lit ''userId'') = None \<or> localStorage w (lit ''userId'') = Some []"
  shows "new_EmotionAwareRecommender rnd w =
           (emit (StorageSet (lit ''userId'') (lit ''user_'' @ take 16 (drop 2 rnd))) w)
             \<lparr>app := \<lparr>userId = lit ''user_'' @ take 16 (drop 2 rnd), apiBase = lit ''/api'',
                      currentEmotion = None\<rparr>,
              localStorage := (localStorage w)(lit ''userId'' \<mapsto> lit ''user_'' @ take 16 (drop 2 rnd))\<rparr>"
  using assms
  by (auto simp: new_EmotionAwareRecommender_def generateUserId_def Let_def emit_def)

lemma constructor_persisted:
  assumes "localStorage w (lit ''userId'') = Some u" "u \<noteq> []"
  shows "new_EmotionAwareRecommender rnd w =
           w\<lparr>app := \<lparr>userId = u, apiBase = lit ''/api'', currentEmotion = None\<rparr>\<rparr>"
  using assms by (simp add: new_EmotionAwareRecommender_def)


subsection \<open>The concrete inputs\<close>

lemma lit_not_Nil [simp]: "lit (c # cs) \<noteq> []"
  by (simp add: lit_def)

lemma example_inputs:
  "js_trim (moodInput_value (page example_world)) = lit ''happy''"
  "js_trim (searchInput_value (page example_world)) = lit ''tea''"
  "trace example_world = []"
  "currentEmotion (app example_world) = None"
  by (simp_all add: example_world_def example_page_def js_trim_def lit_def is_js_space_def)

lemma example_page_inputs [simp]:
  "js_trim (moodInput_value example_page) = lit ''happy''"
  "js_trim (searchInput_value example_page) = lit ''tea''"
  by (simp_all add: example_page_def js_trim_def lit_def is_js_space_def)

lemma example_world_simps [simp]:
  "page example_world = example_page" "localStorage example_world = Map.empty"
  by (simp_all add: example_world_def)

lemma example_page_reset [simp]:
  "example_page\<lparr>analyzeMoodBtn_disabled := False, analyzeMoodBtn_innerHTML := analyze_default_label\<rparr>
     = example_page"
  "example_page\<lparr>searchBtn_disabled := False, searchBtn_innerHTML := search_default_label\<rparr>
     = example_page"
  "example_page\<lparr>sentimentAnalysis_innerHTML := x, analyzeMoodBtn_disabled := False,
                 analyzeMoodBtn_innerHTML := analyze_default_label\<rparr>
     = example_page\<lparr>sentimentAnalysis_innerHTML := x\<rparr>"
  by (simp_all add: example_page_def)

lemma returning_world_simps [simp]:
  "localStorage returning_world (lit ''userId'') = Some (lit ''user_abc'')"
  "trace returning_world = []"
  by (simp_all add: returning_world_def example_world_def)

lemma example_random: "lit ''user_'' @ take 16 (drop 2 (lit ''0.4fzyo82mvyr'')) = lit ''user_4fzyo82mvyr''"
  by (simp add: lit_def)

lemma example_ratings [simp]:
  "rating (rec_product (example_recommendation p)) = rating p"
  "rating example_product = 16 / 5" "rating overrated_product = 6"
  by (simp_all add: example_recommendation_def example_product_def overrated_product_def)

lemma scripted_simps [simp]:
  "scripted (x # xs) 0 r = x"
  "scripted (x # xs) (Suc n) r = scripted xs n r"
  "scripted [] n r = NetworkFailure"
  by (simp_all add: scripted_def)

lemma response_ok_numeral [simp]:
  "response_ok 200" "\<not> response_ok 500" "\<not> response_ok 503" "\<not> response_ok 404"
  by (simp_all add: response_ok_def)

lemma empty_response_simps [simp]: "\<not> success empty_response"
  by (simp add: empty_response_def)

lemma sentiment_response_simps [simp]:
  "success sentiment_response" "sentiment sentiment_response = Some example_sentiment"
  by (simp_all add: sentiment_response_def empty_response_def)

lemma recommendations_response_simps [simp]:
  "success (recommendations_response ps)"
  "recommendations (recommendations_response ps) = Some (map example_recommendation ps)"
  by (simp_all add: recommendations_response_def empty_response_def)

lemma similar_response_simps [simp]:
  "success similar_response" "target_product similar_response = Some example_product"
  "similar_products similar_response = Some []"
  by (simp_all add: similar_response_def empty_response_def)

lemma recommending_backend_simps [simp]:
  "recommending_backend ps 0 req = HttpResponse 200 (Some sentiment_response)"
  "recommending_backend ps (Suc 0) req = HttpResponse 200 (Some (recommendations_response ps))"
  by (simp_all add: recommending_backend_def)


section \<open>A failed tracking call in the product view flow\<close>

text \<open>
  Claim C1 says that a failure of the tracking call of \<open>viewProduct\<close> is only logged,
  raises no alert and does not keep the similar-products request from being made.  The
  call is awaited inside the \<^verbatim>\<open>try\<close> block, so this fails: when the backend answers the
  tracking request with status 500 (and would answer the next request with a product), the
  flow raises its alert and sends nothing else.
\<close>

theorem view_tracking_failure_counterexample:
  "fst (trackInteraction (scripted [HttpResponse 500 None, HttpResponse 200 (Some similar_response)])
          (lit ''p1'') (lit ''view'') (currentEmotion (app example_world)) example_world)
     = Inl (HttpError 500)
   \<and> alerts (trace (viewProduct example_numbers
         (scripted [HttpResponse 500 None, HttpResponse 200 (Some similar_response)])
         (lit ''p1'') example_world))
     = [lit ''Error loading product details. Please try again.'']
   \<and> fetches (trace (viewProduct example_numbers
         (scripted [HttpResponse 500 None, HttpResponse 200 (Some similar_response)])
         (lit ''p1'') example_world))
     = [track_request (app example_world) (lit ''p1'') (lit ''view'') None]"
  by (simp add: viewProduct_def api_send send_def view_failed_def example_inputs)

text \<open>
  Claim C1, amended.  When the tracking call of \<open>viewProduct\<close> fails with the error \<open>e\<close>,
  the error is logged twice (by \<open>makeRequest\<close> and by the \<^verbatim>\<open>catch\<close> block), the alert
  \<^verbatim>\<open>Error loading product details. Please try again.\<close> is raised, the tracking request is
  the only request of the flow, and the page is left as it was.
\<close>

theorem view_tracking_failure:
  assumes "fst (trackInteraction net productId (lit ''view'') (currentEmotion (app w)) w) = Inl e"
  shows "viewProduct nm net productId w =
           emit (Alert (lit ''Error loading product details. Please try again.''))
             (emit (ConsoleError (lit ''Error viewing product:'') e)
               (emit (ConsoleError (lit ''API request failed:'') e)
                 (emit (Fetch (track_request (app w) productId (lit ''view'') (currentEmotion (app w)))) w)))
         \<and> alerts (trace (viewProduct nm net productId w))
             = alerts (trace w) @ [lit ''Error loading product details. Please try again.'']
         \<and> fetches (trace (viewProduct nm net productId w))
             = fetches (trace w) @ [track_request (app w) productId (lit ''view'') (currentEmotion (app w))]
         \<and> page (viewProduct nm net productId w) = page w"
proof -
  let ?t = "track_request (app w) productId (lit ''view'') (currentEmotion (app w))"
  from send_cases [of net ?t w] assms
  have "send net ?t w = (Inl e, emit (ConsoleError (lit ''API request failed:'') e) (emit (Fetch ?t) w))"
    by (auto simp: api_send)
  then have "viewProduct nm net productId w =
           emit (Alert (lit ''Error loading product details. Please try again.''))
             (emit (ConsoleError (lit ''Error viewing product:'') e)
               (emit (ConsoleError (lit ''API request failed:'') e) (emit (Fetch ?t) w)))"
    by (simp add: viewProduct_def api_send view_failed_def)
  then show ?thesis by simp
qed

theorem view_tracking_failure_witness:
  "fst (trackInteraction (scripted [HttpResponse 404 None]) (lit ''p1'') (lit ''view'')
          (currentEmotion (app example_world)) example_world) = Inl (HttpError 404)
   \<and> alerts (trace (viewProduct example_numbers (scripted [HttpResponse 404 None]) (lit ''p1'') example_world))
       = [lit ''Error loading product details. Please try again.'']
   \<and> fetches (trace (viewProduct example_numbers (scripted [HttpResponse 404 None]) (lit ''p1'') example_world))
       = [track_request (app example_world) (lit ''p1'') (lit ''view'') None]
   \<and> page (viewProduct example_numbers (scripted [HttpResponse 404 None]) (lit ''p1'') example_world)
       = page example_world"
proof -
  have h: "fst (trackInteraction (scripted [HttpResponse 404 None]) (lit ''p1'') (lit ''view'')
          (currentEmotion (app example_world)) example_world) = Inl (HttpError 404)"
    by (simp add: api_send send_def example_inputs)
  from view_tracking_failure [OF h, of example_numbers] h show ?thesis
    by (simp add: example_inputs)
qed


section \<open>A response outside 200 to 299 in the mood and search flows\<close>

text \<open>
  Claim C2.  In the mood flow, when the sentiment request, or after a successful analysis
  the recommendations request, is answered with a status outside 200 to 299, and in the
  search flow, when the search request is, the trigger control ends enabled with its
  default label and the flow raises exactly one alert.  The control ends enabled with its
  default label whatever the backend answers, whenever the input was not blank.
\<close>

theorem http_error_resets_control:
  "(js_trim (moodInput_value (page w)) = t \<and> t \<noteq> []
      \<and> net (length (fetches (trace w))) (analyze_request (app w) t) = HttpResponse st b
      \<and> \<not> response_ok st
    \<longrightarrow> \<not> analyzeMoodBtn_disabled (page (analyzeMoodAndRecommend nm net w))
        \<and> analyzeMoodBtn_innerHTML (page (analyzeMoodAndRecommend nm net w)) = analyze_default_label
        \<and> alerts (trace (analyzeMoodAndRecommend nm net w))
            = alerts (trace w) @ [lit ''Sorry, something went wrong. Please try again.''])
   \<and> (js_trim (moodInput_value (page w)) = t \<and> t \<noteq> []
      \<and> net (length (fetches (trace w))) (analyze_request (app w) t) = HttpResponse sta (Some ra)
      \<and> response_ok sta \<and> success ra \<and> sentiment ra = Some s
      \<and> net (Suc (length (fetches (trace w)))) (recommendations_request (app w) (mood_context s t))
          = HttpResponse st b
      \<and> \<not> response_ok st
    \<longrightarrow> \<not> analyzeMoodBtn_disabled (page (analyzeMoodAndRecommend nm net w))
        \<and> analyzeMoodBtn_innerHTML (page (analyzeMoodAndRecommend nm net w)) = analyze_default_label
        \<and> alerts (trace (analyzeMoodAndRecommend nm net w))
            = alerts (trace w) @ [lit ''Sorry, something went wrong. Please try again.''])
   \<and> (js_trim (searchInput_value (page w)) = q \<and> q \<noteq> []
      \<and> net (length (fetches (trace w))) (search_request (app w) q (currentEmotion (app w)))
          = HttpResponse st b
      \<and> \<not> response_ok st
    \<longrightarrow> \<not> searchBtn_disabled (page (performSearch nm net w))
        \<and> searchBtn_innerHTML (page (performSearch nm net w)) = search_default_label
        \<and> alerts (trace (performSearch nm net w))
            = alerts (trace w) @ [lit ''Search failed. Please try again.''])
   \<and> (js_trim (moodInput_value (page w)) \<noteq> []
    \<longrightarrow> \<not> analyzeMoodBtn_disabled (page (analyzeMoodAndRecommend nm net w))
        \<and> analyzeMoodBtn_innerHTML (page (analyzeMoodAndRecommend nm net w)) = analyze_default_label)
   \<and> (js_trim (searchInput_value (page w)) \<noteq> []
    \<longrightarrow> \<not> searchBtn_disabled (page (performSearch nm net w))
        \<and> searchBtn_innerHTML (page (performSearch nm net w)) = search_default_label)"
proof (intro conjI impI; (elim conjE)?)
  assume a: "js_trim (moodInput_value (page w)) = t" "t \<noteq> []"
    "net (length (fetches (trace w))) (analyze_request (app w) t) = HttpResponse st b"
    "\<not> response_ok st"
  have "analyze_try nm net t (mood_busy w) =
          (Some (HttpError st), emit (ConsoleError (lit ''API request failed:'') (HttpError st))
             (emit (Fetch (analyze_request (app w) t)) (mood_busy w)))"
    using a by (simp add: analyze_try_Inl)
  from mood_flow_error [OF a(1,2) this]
  show "alerts (trace (analyzeMoodAndRecommend nm net w))
            = alerts (trace w) @ [lit ''Sorry, something went wrong. Please try again.'']"
    by simp
next
  assume a: "js_trim (moodInput_value (page w)) = t" "t \<noteq> []"
    "net (length (fetches (trace w))) (analyze_request (app w) t) = HttpResponse sta (Some ra)"
    "response_ok sta" "success ra" "sentiment ra = Some s"
    "net (Suc (length (fetches (trace w)))) (recommendations_request (app w) (mood_context s t))
          = HttpResponse st b" "\<not> response_ok st"
  let ?w2 = "(emit (Fetch (analyze_request (app w) t)) (mood_busy w))
          \<lparr>app := (app w)\<lparr>currentEmotion := Some (primary_emotion s)\<rparr>,
           page := (page (mood_busy w))\<lparr>sentimentAnalysis_innerHTML := sentiment_summary nm s\<rparr>\<rparr>"
  have 1: "analyze_try nm net t (mood_busy w) = recommend_try nm net (mood_context s t) ?w2"
    using a by (simp add: analyze_try_sentiment)
  have 2: "recommend_try nm net (mood_context s t) ?w2 =
     (Some (HttpError st), emit (ConsoleError (lit ''API request failed:'') (HttpError st))
                (emit (Fetch (recommendations_request (app ?w2) (mood_context s t))) ?w2))"
    using a by (simp add: recommend_try_Inl)
  from mood_flow_error [OF a(1,2) 1 [unfolded 2]]
  show "alerts (trace (analyzeMoodAndRecommend nm net w))
            = alerts (trace w) @ [lit ''Sorry, something went wrong. Please try again.'']"
    by simp
next
  assume a: "js_trim (searchInput_value (page w)) = q" "q \<noteq> []"
    "net (length (fetches (trace w))) (search_request (app w) q (currentEmotion (app w)))
          = HttpResponse st b" "\<not> response_ok st"
  have "search_try nm net q (search_busy w) =
     (Some (HttpError st), emit (ConsoleError (lit ''API request failed:'') (HttpError st))
                (emit (Fetch (search_request (app w) q (currentEmotion (app w)))) (search_busy w)))"
    using a by (simp add: search_try_Inl)
  from search_flow_error [OF a(1,2) this]
  show "alerts (trace (performSearch nm net w))
            = alerts (trace w) @ [lit ''Search failed. Please try again.'']"
    by simp
qed (simp_all add: mood_flow_button search_flow_button)

theorem http_error_resets_control_witness:
  "(js_trim (moodInput_value (page example_world)) = lit ''happy'' \<and> lit ''happy'' \<noteq> []
    \<and> scripted [HttpResponse 500 None] (length (fetches (trace example_world)))
         (analyze_request (app example_world) (lit ''happy'')) = HttpResponse 500 None
    \<and> \<not> response_ok 500
    \<and> \<not> analyzeMoodBtn_disabled
         (page (analyzeMoodAndRecommend example_numbers (scripted [HttpResponse 500 None]) example_world))
    \<and> alerts (trace (analyzeMoodAndRecommend example_numbers (scripted [HttpResponse 500 None]) example_world))
        = [lit ''Sorry, something went wrong. Please try again.''])
   \<and> (scripted [HttpResponse 200 (Some sentiment_response), HttpResponse 503 None]
         (length (fetches (trace example_world)))
         (analyze_request (app example_world) (lit ''happy'')) = HttpResponse 200 (Some sentiment_response)
    \<and> response_ok 200 \<and> success sentiment_response
    \<and> sentiment sentiment_response = Some example_sentiment
    \<and> scripted [HttpResponse 200 (Some sentiment_response), HttpResponse 503 None]
         (Suc (length (fetches (trace example_world))))
         (recommendations_request (app example_world) (mood_context example_sentiment (lit ''happy'')))
        = HttpResponse 503 None
    \<and> \<not> response_ok 503
    \<and> analyzeMoodBtn_innerHTML
         (page (analyzeMoodAndRecommend example_numbers
            (scripted [HttpResponse 200 (Some sentiment_response), HttpResponse 503 None]) example_world))
        = analyze_default_label
    \<and> alerts (trace (analyzeMoodAndRecommend example_numbers
            (scripted [HttpResponse 200 (Some sentiment_response), HttpResponse 503 None]) example_world))
        = [lit ''Sorry, something went wrong. Please try again.''])
   \<and> (js_trim (searchInput_value (page example_world)) = lit ''tea'' \<and> lit ''tea'' \<noteq> []
    \<and> scripted [HttpResponse 404 None] (length (fetches (trace example_world)))
         (search_request (app example_world) (lit ''tea'') (currentEmotion (app example_world)))
        = HttpResponse 404 None
    \<and> \<not> response_ok 404
    \<and> \<not> searchBtn_disabled (page (performSearch example_numbers (scripted [HttpResponse 404 None]) example_world))
    \<and> searchBtn_innerHTML (page (performSearch example_numbers (scripted [HttpResponse 404 None]) example_world))
        = search_default_label
    \<and> alerts (trace (performSearch example_numbers (scripted [HttpResponse 404 None]) example_world))
        = [lit ''Search failed. Please try again.''])"
  using
    http_error_resets_control [where w = example_world and t = "lit ''happy''" and nm = example_numbers
       and net = "scripted [HttpResponse 500 None]" and st = 500 and b = None]
    http_error_resets_control [where w = example_world and t = "lit ''happy''" and nm = example_numbers
       and net = "scripted [HttpResponse 200 (Some sentiment_response), HttpResponse 503 None]"
       and sta = 200 and ra = sentiment_response and s = example_sentiment and st = 503 and b = None]
    http_error_resets_control [where w = example_world and q = "lit ''tea''" and nm = example_numbers
       and net = "scripted [HttpResponse 404 None]" and st = 404 and b = None]
  by (simp add: example_inputs)


section \<open>Blank input\<close>

text \<open>
  Claim C3.  When the mood input (the search input) is empty or holds only white space,
  \<open>analyzeMoodAndRecommend\<close> (\<open>performSearch\<close>) does nothing but raise its alert: no
  request is sent, and the trigger control is left as it was, enabled if it was enabled.
\<close>

theorem blank_input_sends_nothing:
  "(list_all is_js_space (moodInput_value (page w)) \<longrightarrow>
      analyzeMoodAndRecommend nm net w
        = emit (Alert (lit ''Please tell us how you'' @ apos @ lit ''re feeling first!'')) w
      \<and> fetches (trace (analyzeMoodAndRecommend nm net w)) = fetches (trace w)
      \<and> analyzeMoodBtn_disabled (page (analyzeMoodAndRecommend nm net w))
          = analyzeMoodBtn_disabled (page w))
   \<and> (list_all is_js_space (searchInput_value (page w)) \<longrightarrow>
      performSearch nm net w = emit (Alert (lit ''Please enter a search query!'')) w
      \<and> fetches (trace (performSearch nm net w)) = fetches (trace w)
      \<and> searchBtn_disabled (page (performSearch nm net w)) = searchBtn_disabled (page w))"
  by (simp add: js_trim_blank mood_flow_blank search_flow_blank list_all_iff)

theorem blank_input_sends_nothing_witness:
  "list_all is_js_space (moodInput_value (page blank_world))
   \<and> fetches (trace (analyzeMoodAndRecommend example_numbers (scripted []) blank_world)) = []
   \<and> \<not> analyzeMoodBtn_disabled (page (analyzeMoodAndRecommend example_numbers (scripted []) blank_world))
   \<and> list_all is_js_space (searchInput_value (page blank_world))
   \<and> fetches (trace (performSearch example_numbers (scripted []) blank_world)) = []
   \<and> \<not> searchBtn_disabled (page (performSearch example_numbers (scripted []) blank_world))"
  using blank_input_sends_nothing [of blank_world example_numbers "scripted []"]
  by (simp add: blank_world_def example_world_def example_page_def is_js_space_def)


section \<open>The rating glyphs of a product card\<close>

text \<open>
  Claim C4.  For a product whose rating \<open>r\<close> lies between 0 and 5, \<open>renderProductCard\<close>
  returns a card (it raises nothing), and the card is: the template up to the rating
  \<^verbatim>\<open>span\<close>, a line break with its indentation, \<open>\<lfloor>r\<rfloor>\<close> filled glyphs, \<open>5 - \<lfloor>r\<rfloor>\<close> empty
  glyphs, a line break with its indentation, the rating as JavaScript prints it, and the
  rest of the template.  The witness is the rating 3.2: three filled glyphs, two empty
  ones, then \<^verbatim>\<open>3.2\<close>.
\<close>

theorem rating_glyphs:
  "0 \<le> rating p \<Longrightarrow> rating p \<le> 5 \<Longrightarrow>
   renderProductCard nm p x =
     Inr (card_upper nm p x
          @ line 32 ''''
          @ concat (replicate (nat \<lfloor>rating p\<rfloor>) star)
          @ concat (replicate (5 - nat \<lfloor>rating p\<rfloor>) hollow)
          @ line 32 ''''
          @ num_str nm (rating p)
          @ card_lower p x)"
proof -
  assume a: "0 \<le> rating p" "rating p \<le> 5"
  have f: "0 \<le> \<lfloor>rating p\<rfloor>" "\<lfloor>rating p\<rfloor> \<le> 5"
    using floor_rating_range [OF a] by simp_all
  have n: "nat (5 - \<lfloor>rating p\<rfloor>) = 5 - nat \<lfloor>rating p\<rfloor>"
    using f by arith
  have "js_repeat star \<lfloor>rating p\<rfloor> = Inr (concat (replicate (nat \<lfloor>rating p\<rfloor>) star))"
    using f by (simp add: js_repeat_def)
  moreover have "js_repeat hollow (5 - \<lfloor>rating p\<rfloor>) = Inr (concat (replicate (5 - nat \<lfloor>rating p\<rfloor>) hollow))"
    using f n by (simp add: js_repeat_def)
  ultimately show ?thesis
    unfolding renderProductCard_def by simp
qed

theorem rating_glyphs_witness:
  "0 \<le> rating example_product \<and> rating example_product \<le> 5
   \<and> renderProductCard example_numbers example_product no_extra =
       Inr (card_upper example_numbers example_product no_extra
            @ line 32 ''''
            @ star @ star @ star
            @ hollow @ hollow
            @ line 32 ''''
            @ lit ''3.2''
            @ card_lower example_product no_extra)"
proof -
  have f: "\<lfloor>16 / 5 :: rat\<rfloor> = 3"
    by (simp add: floor_eq_iff)
  have n: "num_str example_numbers x = lit ''3.2''" for x
    by (simp add: example_numbers_def)
  have b: "0 \<le> rating example_product" "rating example_product \<le> 5"
    by simp_all
  show ?thesis
    using rating_glyphs [OF b, of example_numbers no_extra] b
    by (simp add: f n numeral_3_eq_3 numeral_2_eq_2)
qed


section \<open>The bodies of the recommendation and search requests\<close>

text \<open>
  Claim C5.  \<open>getRecommendations\<close> sends one request, a POST to \<^verbatim>\<open>/recommendations\<close>
  whose body has exactly the fields \<^verbatim>\<open>user_id\<close>, \<^verbatim>\<open>context\<close> and \<^verbatim>\<open>limit\<close>, in
  this order, with \<^verbatim>\<open>limit\<close> 8; \<open>searchProducts\<close> sends one request, a POST to
  \<^verbatim>\<open>/search\<close> whose body has exactly the fields \<^verbatim>\<open>query\<close>, \<^verbatim>\<open>emotion_context\<close> and
  \<^verbatim>\<open>limit\<close>, with \<^verbatim>\<open>limit\<close> 10.
\<close>

theorem request_bodies:
  "fetches (trace (snd (getRecommendations net c w)))
     = fetches (trace w) @
       [\<lparr>url = apiBase (app w) @ lit ''/recommendations'', http_method = POST,
         headers = [(lit ''Content-Type'', lit ''application/json'')],
         body = Some (JObj [(lit ''user_id'', JStr (userId (app w))),
                            (lit ''context'', c),
                            (lit ''limit'', JNum 8)])\<rparr>]
   \<and> fetches (trace (snd (searchProducts net q emo w)))
     = fetches (trace w) @
       [\<lparr>url = apiBase (app w) @ lit ''/search'', http_method = POST,
         headers = [(lit ''Content-Type'', lit ''application/json'')],
         body = Some (JObj [(lit ''query'', JStr q),
                            (lit ''emotion_context'', json_of_emotion emo),
                            (lit ''limit'', JNum 10)])\<rparr>]"
  by (simp add: api_send recommendations_request_def search_request_def api_request_def)


section \<open>Rendering the recommendations\<close>

text \<open>
  Claim C6 says that every successful recommendations response with \<open>N\<close> items makes the
  mood flow render \<open>N\<close> cards and show the recommendations section.  A card is rendered
  with \<^verbatim>\<open>repeat(5 - Math.floor(rating))\<close>, which raises a RangeError for a rating of 6: with
  one such item the flow renders no card, leaves the section hidden and raises its alert.
\<close>

theorem recommendations_rendered_counterexample:
  "success (recommendations_response [overrated_product])
   \<and> recommendations (recommendations_response [overrated_product])
       = Some [example_recommendation overrated_product]
   \<and> render_recommendation example_numbers (example_recommendation overrated_product)
       = Inl RangeError
   \<and> recommendationsList_innerHTML
        (page (analyzeMoodAndRecommend example_numbers (recommending_backend [overrated_product])
           example_world)) = []
   \<and> recommendationsSection_display
        (page (analyzeMoodAndRecommend example_numbers (recommending_backend [overrated_product])
           example_world)) = lit ''none''
   \<and> alerts (trace (analyzeMoodAndRecommend example_numbers (recommending_backend [overrated_product])
           example_world))
       = [lit ''Sorry, something went wrong. Please try again.'']"
proof -
  let ?net = "recommending_backend [overrated_product]"
  let ?w2 = "(emit (Fetch (analyze_request (app example_world) (lit ''happy''))) (mood_busy example_world))
          \<lparr>app := (app example_world)\<lparr>currentEmotion := Some (primary_emotion example_sentiment)\<rparr>,
           page := (page (mood_busy example_world))
             \<lparr>sentimentAnalysis_innerHTML := sentiment_summary example_numbers example_sentiment\<rparr>\<rparr>"
  have e: "render_recommendation example_numbers (example_recommendation overrated_product)
       = Inl RangeError"
    by (simp add: render_recommendation_def renderProductCard_RangeError example_recommendation_def
          overrated_product_def)
  then have m: "map_throwing (render_recommendation example_numbers)
                  [example_recommendation overrated_product] = Inl RangeError"
    by simp
  have 1: "analyze_try example_numbers ?net (lit ''happy'') (mood_busy example_world)
            = recommend_try example_numbers ?net (mood_context example_sentiment (lit ''happy'')) ?w2"
    by (simp add: analyze_try_sentiment [where r = sentiment_response] example_inputs)
  have 2: "recommend_try example_numbers ?net (mood_context example_sentiment (lit ''happy'')) ?w2
            = (Some RangeError,
               emit (Fetch (recommendations_request (app ?w2) (mood_context example_sentiment (lit ''happy'')))) ?w2)"
    using m
    by (simp add: recommend_try_throws [where r = "recommendations_response [overrated_product]"]
          example_inputs)
  from mood_flow_error [OF example_inputs(1) _ 1 [unfolded 2]] e
  show ?thesis
    by (simp add: example_inputs mood_busy_def example_page_def)
qed

text \<open>
  Claim C6, amended.  After a successful sentiment analysis, a successful recommendations
  response with \<open>N\<close> items, each for a product whose rating \<open>r\<close> has \<open>0 \<le> r < 6\<close> (so every
  rating from 0 to 5), makes the mood flow put exactly \<open>N\<close> cards, the renderings of the
  items in their order, into the recommendations list, show the recommendations section
  and scroll to it.  No bound on \<open>N\<close> is needed.
\<close>

theorem recommendations_rendered:
  assumes "js_trim (moodInput_value (page w)) = t" and "t \<noteq> []"
    and "net (length (fetches (trace w))) (analyze_request (app w) t) = HttpResponse sta (Some ra)"
    and "response_ok sta" and "success ra" and "sentiment ra = Some s"
    and "net (Suc (length (fetches (trace w)))) (recommendations_request (app w) (mood_context s t))
          = HttpResponse st (Some r)"
    and "response_ok st" and "success r" and "recommendations r = Some recs"
    and "list_all (\<lambda>x. 0 \<le> rating (rec_product x) \<and> rating (rec_product x) < 6) recs"
  shows "(\<exists>cards. length cards = length recs
            \<and> list_all2 (\<lambda>x card. render_recommendation nm x = Inr card) recs cards
            \<and> recommendationsList_innerHTML (page (analyzeMoodAndRecommend nm net w)) = concat cards)
         \<and> recommendationsSection_display (page (analyzeMoodAndRecommend nm net w)) = lit ''block''
         \<and> trace (analyzeMoodAndRecommend nm net w)
             = trace w @ [Fetch (analyze_request (app w) t),
                          Fetch (recommendations_request (app w) (mood_context s t)),
                          ScrollIntoView]"
proof -
  have "\<forall>x\<in>set recs. \<exists>card. render_recommendation nm x = Inr card"
    using assms(11) by (auto simp: list_all_iff render_recommendation_defined)
  then obtain cards where c: "map_throwing (render_recommendation nm) recs = Inr cards"
    using map_throwing_total by blast
  then have l: "list_all2 (\<lambda>x card. render_recommendation nm x = Inr card) recs cards"
    by (simp add: map_throwing_Inr_iff)
  let ?w2 = "(emit (Fetch (analyze_request (app w) t)) (mood_busy w))
          \<lparr>app := (app w)\<lparr>currentEmotion := Some (primary_emotion s)\<rparr>,
           page := (page (mood_busy w))\<lparr>sentimentAnalysis_innerHTML := sentiment_summary nm s\<rparr>\<rparr>"
  have 1: "analyze_try nm net t (mood_busy w) = recommend_try nm net (mood_context s t) ?w2"
    using assms by (simp add: analyze_try_sentiment)
  have rr: "read_response (net (length (fetches (trace ?w2)))
          (recommendations_request (app ?w2) (mood_context s t))) = Inr r"
    using assms by simp
  have 2: "recommend_try nm net (mood_context s t) ?w2 =
     (None, ?w2\<lparr>page := (page ?w2)\<lparr>recommendationsList_innerHTML := concat cards,
                                  recommendationsSection_display := lit ''block''\<rparr>,
              trace := trace ?w2 @ [Fetch (recommendations_request (app ?w2) (mood_context s t)), ScrollIntoView]\<rparr>)"
    by (rule recommend_try_cards [where net = net and r = r and recs = recs, OF rr assms(9,10) c])
  from mood_flow_normal [OF assms(1,2) 1 [unfolded 2]]
  have 3: "recommendationsList_innerHTML (page (analyzeMoodAndRecommend nm net w)) = concat cards"
    and 4: "recommendationsSection_display (page (analyzeMoodAndRecommend nm net w)) = lit ''block''"
    and 5: "trace (analyzeMoodAndRecommend nm net w)
             = trace w @ [Fetch (analyze_request (app w) t),
                          Fetch (recommendations_request (app w) (mood_context s t)),
                          ScrollIntoView]"
    by simp_all
  from l have "length cards = length recs"
    by (simp add: list_all2_lengthD)
  with l 3 4 5 show ?thesis by blast
qed

theorem recommendations_rendered_witness:
  "js_trim (moodInput_value (page example_world)) = lit ''happy'' \<and> lit ''happy'' \<noteq> []
   \<and> recommending_backend [example_product, example_product] (length (fetches (trace example_world)))
        (analyze_request (app example_world) (lit ''happy''))
       = HttpResponse 200 (Some sentiment_response)
   \<and> response_ok 200 \<and> success sentiment_response
   \<and> sentiment sentiment_response = Some example_sentiment
   \<and> recommending_backend [example_product, example_product]
        (Suc (length (fetches (trace example_world))))
        (recommendations_request (app example_world) (mood_context example_sentiment (lit ''happy'')))
       = HttpResponse 200 (Some (recommendations_response [example_product, example_product]))
   \<and> success (recommendations_response [example_product, example_product])
   \<and> recommendations (recommendations_response [example_product, example_product])
       = Some [example_recommendation example_product, example_recommendation example_product]
   \<and> list_all (\<lambda>x. 0 \<le> rating (rec_product x) \<and> rating (rec_product x) < 6)
        [example_recommendation example_product, example_recommendation example_product]
   \<and> (\<exists>cards. length cards = 2
         \<and> recommendationsList_innerHTML
             (page (analyzeMoodAndRecommend example_numbers
                (recommending_backend [example_product, example_product]) example_world))
            = concat cards)
   \<and> recommendationsSection_display
        (page (analyzeMoodAndRecommend example_numbers
           (recommending_backend [example_product, example_product]) example_world))
       = lit ''block''"
proof -
  have h: "js_trim (moodInput_value (page example_world)) = lit ''happy''" "lit ''happy'' \<noteq> []"
    "recommending_backend [example_product, example_product] (length (fetches (trace example_world)))
        (analyze_request (app example_world) (lit ''happy''))
       = HttpResponse 200 (Some sentiment_response)"
    "response_ok 200" "success sentiment_response"
    "sentiment sentiment_response = Some example_sentiment"
    "recommending_backend [example_product, example_product]
        (Suc (length (fetches (trace example_world))))
        (recommendations_request (app example_world) (mood_context example_sentiment (lit ''happy'')))
       = HttpResponse 200 (Some (recommendations_response [example_product, example_product]))"
    "response_ok 200"
    "success (recommendations_response [example_product, example_product])"
    "recommendations (recommendations_response [example_product, example_product])
       = Some [example_recommendation example_product, example_recommendation example_product]"
    "list_all (\<lambda>x. 0 \<le> rating (rec_product x) \<and> rating (rec_product x) < 6)
        [example_recommendation example_product, example_recommendation example_product]"
    by (simp_all add: example_inputs)
  from recommendations_rendered [OF h, of example_numbers] h show ?thesis
    by (auto simp: numeral_2_eq_2)
qed


section \<open>The user identity\<close>

text \<open>
  Claim C7.  A client constructed when the storage holds no identity (no entry, or the
  empty string, which the constructor treats as none) generates the identity
  \<^verbatim>\<open>user_\<close> followed by at most 16 characters of the random string; through the
  construction and any session after it, this identity is written to the storage exactly
  once, it stays the identity of the client, and every request that has a \<^verbatim>\<open>user_id\<close>
  carries it.  A client constructed when the storage holds an identity takes that one,
  and nothing is written.  The requests of \<open>getRecommendations\<close> and \<open>trackInteraction\<close>
  do have a \<^verbatim>\<open>user_id\<close>: the identity of the client.
\<close>

theorem identity_generated_once_and_reused:
  "(localStorage w (lit ''userId'') = None \<or> localStorage w (lit ''userId'') = Some [] \<longrightarrow>
      userId (app (session nm net acts (new_EmotionAwareRecommender rnd w)))
        = lit ''user_'' @ take 16 (drop 2 rnd)
      \<and> storage_writes (trace (session nm net acts (new_EmotionAwareRecommender rnd w)))
        = storage_writes (trace w) @ [(lit ''userId'', lit ''user_'' @ take 16 (drop 2 rnd))]
      \<and> localStorage (session nm net acts (new_EmotionAwareRecommender rnd w)) (lit ''userId'')
        = Some (lit ''user_'' @ take 16 (drop 2 rnd))
      \<and> list_all (request_keeps_identity (lit ''user_'' @ take 16 (drop 2 rnd)))
          (drop (length (fetches (trace w)))
             (fetches (trace (session nm net acts (new_EmotionAwareRecommender rnd w))))))
   \<and> (localStorage w (lit ''userId'') = Some u \<and> u \<noteq> [] \<longrightarrow>
      userId (app (session nm net acts (new_EmotionAwareRecommender rnd w))) = u
      \<and> storage_writes (trace (session nm net acts (new_EmotionAwareRecommender rnd w)))
        = storage_writes (trace w)
      \<and> localStorage (session nm net acts (new_EmotionAwareRecommender rnd w)) = localStorage w
      \<and> list_all (request_keeps_identity u)
          (drop (length (fetches (trace w)))
             (fetches (trace (session nm net acts (new_EmotionAwareRecommender rnd w))))))
   \<and> fetches (trace (snd (getRecommendations net c v)))
       = fetches (trace v) @ [recommendations_request (app v) c]
   \<and> body_field (recommendations_request (app v) c) (lit ''user_id'') = Some (JStr (userId (app v)))
   \<and> fetches (trace (snd (trackInteraction net p act em v)))
       = fetches (trace v) @ [track_request (app v) p act em]
   \<and> body_field (track_request (app v) p act em) (lit ''user_id'') = Some (JStr (userId (app v)))"
proof (intro conjI impI)
  let ?uid = "lit ''user_'' @ take 16 (drop 2 rnd)"
  let ?v = "new_EmotionAwareRecommender rnd w"
  assume "localStorage w (lit ''userId'') = None \<or> localStorage w (lit ''userId'') = Some []"
  note f = constructor_fresh [OF this, of rnd]
  have v: "userId (app ?v) = ?uid" "storage_writes (trace ?v) = storage_writes (trace w) @ [(lit ''userId'', ?uid)]"
    "localStorage ?v (lit ''userId'') = Some ?uid" "fetches (trace ?v) = fetches (trace w)"
    unfolding f by simp_all
  show "userId (app (session nm net acts ?v)) = ?uid"
    by (simp add: session_keeps v)
  show "storage_writes (trace (session nm net acts ?v)) = storage_writes (trace w) @ [(lit ''userId'', ?uid)]"
    by (simp add: session_keeps v)
  show "localStorage (session nm net acts ?v) (lit ''userId'') = Some ?uid"
    by (simp add: session_keeps v)
  show "list_all (request_keeps_identity ?uid)
          (drop (length (fetches (trace w))) (fetches (trace (session nm net acts ?v))))"
    using session_keeps(4) [of ?v nm net acts] by (simp add: v)
next
  let ?v = "new_EmotionAwareRecommender rnd w"
  assume "localStorage w (lit ''userId'') = Some u \<and> u \<noteq> []"
  then have f: "?v = w\<lparr>app := \<lparr>userId = u, apiBase = lit ''/api'', currentEmotion = None\<rparr>\<rparr>"
    by (simp add: constructor_persisted)
  have v: "userId (app ?v) = u" "storage_writes (trace ?v) = storage_writes (trace w)"
    "localStorage ?v = localStorage w" "fetches (trace ?v) = fetches (trace w)"
    unfolding f by simp_all
  show "userId (app (session nm net acts ?v)) = u"
    by (simp add: session_keeps v)
  show "storage_writes (trace (session nm net acts ?v)) = storage_writes (trace w)"
    by (simp add: session_keeps v)
  show "localStorage (session nm net acts ?v) = localStorage w"
    by (simp add: session_keeps v)
  show "list_all (request_keeps_identity u)
          (drop (length (fetches (trace w))) (fetches (trace (session nm net acts ?v))))"
    using session_keeps(4) [of ?v nm net acts] by (simp add: v)
qed (simp_all add: api_send body_field_def body_fields_def recommendations_request_def
       track_request_def api_request_def)

theorem identity_generated_once_and_reused_witness:
  "localStorage example_world (lit ''userId'') = None
   \<and> userId (app (session example_numbers (recommending_backend [example_product])
         [AnalyzeMoodAndRecommend, ViewProduct (lit ''p1'')]
         (new_EmotionAwareRecommender (lit ''0.4fzyo82mvyr'') example_world)))
       = lit ''user_4fzyo82mvyr''
   \<and> storage_writes (trace (session example_numbers (recommending_backend [example_product])
         [AnalyzeMoodAndRecommend, ViewProduct (lit ''p1'')]
         (new_EmotionAwareRecommender (lit ''0.4fzyo82mvyr'') example_world)))
       = [(lit ''userId'', lit ''user_4fzyo82mvyr'')]
   \<and> localStorage returning_world (lit ''userId'') = Some (lit ''user_abc'')
   \<and> lit ''user_abc'' \<noteq> []
   \<and> userId (app (session example_numbers (recommending_backend [example_product])
         [AnalyzeMoodAndRecommend, ViewProduct (lit ''p1'')]
         (new_EmotionAwareRecommender (lit ''0.4fzyo82mvyr'') returning_world)))
       = lit ''user_abc''
   \<and> storage_writes (trace (session example_numbers (recommending_backend [example_product])
         [AnalyzeMoodAndRecommend, ViewProduct (lit ''p1'')]
         (new_EmotionAwareRecommender (lit ''0.4fzyo82mvyr'') returning_world)))
       = []"
  using
    identity_generated_once_and_reused [where w = example_world and rnd = "lit ''0.4fzyo82mvyr''"
      and nm = example_numbers and net = "recommending_backend [example_product]"
      and acts = "[AnalyzeMoodAndRecommend, ViewProduct (lit ''p1'')]"]
    identity_generated_once_and_reused [where w = returning_world and rnd = "lit ''0.4fzyo82mvyr''"
      and nm = example_numbers and net = "recommending_backend [example_product]"
      and acts = "[AnalyzeMoodAndRecommend, ViewProduct (lit ''p1'')]" and u = "lit ''user_abc''"]
  by (simp add: example_random example_inputs)


section \<open>The order of the requests of the product view flow\<close>

text \<open>
  Claim C8.  Whatever the backend answers, the first thing \<open>viewProduct\<close> does is to send
  the track-interaction request with the action \<^verbatim>\<open>view\<close>; the requests of the flow are
  that one alone, or that one followed by the similar-products request.
\<close>

theorem view_tracks_first:
  "(\<exists>rest. trace (viewProduct nm net productId w) =
       trace w @ Fetch (track_request (app w) productId (lit ''view'') (currentEmotion (app w))) # rest)
   \<and> (fetches (trace (viewProduct nm net productId w)) =
         fetches (trace w) @ [track_request (app w) productId (lit ''view'') (currentEmotion (app w))]
      \<or> fetches (trace (viewProduct nm net productId w)) =
         fetches (trace w) @ [track_request (app w) productId (lit ''view'') (currentEmotion (app w)),
                               similar_request (app w) productId])"
proof -
  let ?t = "track_request (app w) productId (lit ''view'') (currentEmotion (app w))"
  let ?s = "similar_request (app w) productId"
  let ?w1 = "emit (Fetch ?t) w"
  from send_cases [of net ?t w] show ?thesis
  proof (elim disjE exE)
    fix e assume "send net ?t w = (Inl e, emit (ConsoleError (lit ''API request failed:'') e) ?w1)"
    then show ?thesis
      by (simp add: viewProduct_def api_send view_failed_def)
  next
    fix r assume t: "send net ?t w = (Inr r, ?w1)"
    from send_cases [of net ?s ?w1] show ?thesis
    proof (elim disjE exE)
      fix e assume "send net ?s ?w1 = (Inl e, emit (ConsoleError (lit ''API request failed:'') e) (emit (Fetch ?s) ?w1))"
      with t show ?thesis
        by (simp add: viewProduct_def api_send view_failed_def)
    next
      fix r2 assume "send net ?s ?w1 = (Inr r2, emit (Fetch ?s) ?w1)"
      with t show ?thesis
        by (simp add: viewProduct_def api_send view_failed_def Let_def split: option.splits sum.splits)
    qed
  qed
qed


section \<open>A response whose envelope says no success\<close>

text \<open>
  Claim C9.  When the response a flow inspects has a status from 200 to 299 and
  \<^verbatim>\<open>success\<close> false, the flow does nothing with it: the world it leaves is the one before
  the response, with the request recorded and, in the mood and search flows, the trigger
  control enabled with its default label.  So no container is written, no alert is raised
  and nothing is logged.  The five cases are the sentiment response and the
  recommendations response of the mood flow (where the sentiment summary stands, written
  for the response before), the search response, the products response and the
  similar-products response of the product view flow (the acknowledgement of the tracking
  call is not inspected).
\<close>

theorem unsuccessful_envelope_is_ignored:
  "(js_trim (moodInput_value (page w)) = t \<and> t \<noteq> []
      \<and> net (length (fetches (trace w))) (analyze_request (app w) t) = HttpResponse st (Some r)
      \<and> response_ok st \<and> \<not> success r
    \<longrightarrow> analyzeMoodAndRecommend nm net w =
          (emit (Fetch (analyze_request (app w) t)) w)
            \<lparr>page := (page w)\<lparr>analyzeMoodBtn_disabled := False,
                                analyzeMoodBtn_innerHTML := analyze_default_label\<rparr>\<rparr>)
   \<and> (js_trim (moodInput_value (page w)) = t \<and> t \<noteq> []
      \<and> net (length (fetches (trace w))) (analyze_request (app w) t) = HttpResponse sta (Some ra)
      \<and> response_ok sta \<and> success ra \<and> sentiment ra = Some s
      \<and> net (Suc (length (fetches (trace w)))) (recommendations_request (app w) (mood_context s t))
          = HttpResponse st (Some r)
      \<and> response_ok st \<and> \<not> success r
    \<longrightarrow> analyzeMoodAndRecommend nm net w =
          (emit (Fetch (recommendations_request (app w) (mood_context s t)))
             (emit (Fetch (analyze_request (app w) t)) w))
            \<lparr>app := (app w)\<lparr>currentEmotion := Some (primary_emotion s)\<rparr>,
             page := (page w)\<lparr>sentimentAnalysis_innerHTML := sentiment_summary nm s,
                                analyzeMoodBtn_disabled := False,
                                analyzeMoodBtn_innerHTML := analyze_default_label\<rparr>\<rparr>)
   \<and> (js_trim (searchInput_value (page w)) = q \<and> q \<noteq> []
      \<and> net (length (fetches (trace w))) (search_request (app w) q (currentEmotion (app w)))
          = HttpResponse st (Some r)
      \<and> response_ok st \<and> \<not> success r
    \<longrightarrow> performSearch nm net w =
          (emit (Fetch (search_request (app w) q (currentEmotion (app w)))) w)
            \<lparr>page := (page w)\<lparr>searchBtn_disabled := False,
                                searchBtn_innerHTML := search_default_label\<rparr>\<rparr>)
   \<and> (net (length (fetches (trace w))) (products_request (app w)) = HttpResponse st (Some r)
      \<and> response_ok st \<and> \<not> success r
    \<longrightarrow> loadAllProducts nm net w = emit (Fetch (products_request (app w))) w)
   \<and> (net (length (fetches (trace w)))
          (track_request (app w) productId (lit ''view'') (currentEmotion (app w)))
          = HttpResponse sta (Some ra)
      \<and> response_ok sta
      \<and> net (Suc (length (fetches (trace w)))) (similar_request (app w) productId)
          = HttpResponse st (Some r)
      \<and> response_ok st \<and> \<not> success r
    \<longrightarrow> viewProduct nm net productId w =
          emit (Fetch (similar_request (app w) productId))
            (emit (Fetch (track_request (app w) productId (lit ''view'') (currentEmotion (app w)))) w))"
proof (intro conjI impI; elim conjE)
  assume a: "js_trim (moodInput_value (page w)) = t" "t \<noteq> []"
    "net (length (fetches (trace w))) (analyze_request (app w) t) = HttpResponse st (Some r)"
    "response_ok st" "\<not> success r"
  have "analyze_try nm net t (mood_busy w) = (None, emit (Fetch (analyze_request (app w) t)) (mood_busy w))"
    using a by (simp add: analyze_try_unsuccessful)
  from mood_flow_normal [OF a(1,2) this]
  show "analyzeMoodAndRecommend nm net w =
          (emit (Fetch (analyze_request (app w) t)) w)
            \<lparr>page := (page w)\<lparr>analyzeMoodBtn_disabled := False,
                                analyzeMoodBtn_innerHTML := analyze_default_label\<rparr>\<rparr>"
    by (simp add: mood_busy_def emit_def)
next
  assume a: "js_trim (moodInput_value (page w)) = t" "t \<noteq> []"
    "net (length (fetches (trace w))) (analyze_request (app w) t) = HttpResponse sta (Some ra)"
    "response_ok sta" "success ra" "sentiment ra = Some s"
    "net (Suc (length (fetches (trace w)))) (recommendations_request (app w) (mood_context s t))
          = HttpResponse st (Some r)" "response_ok st" "\<not> success r"
  let ?w2 = "(emit (Fetch (analyze_request (app w) t)) (mood_busy w))
          \<lparr>app := (app w)\<lparr>currentEmotion := Some (primary_emotion s)\<rparr>,
           page := (page (mood_busy w))\<lparr>sentimentAnalysis_innerHTML := sentiment_summary nm s\<rparr>\<rparr>"
  have 1: "analyze_try nm net t (mood_busy w) = recommend_try nm net (mood_context s t) ?w2"
    using a by (simp add: analyze_try_sentiment)
  have 2: "recommend_try nm net (mood_context s t) ?w2 =
     (None, emit (Fetch (recommendations_request (app ?w2) (mood_context s t))) ?w2)"
    using a by (simp add: recommend_try_unsuccessful)
  from mood_flow_normal [OF a(1,2) 1 [unfolded 2]]
  show "analyzeMoodAndRecommend nm net w =
          (emit (Fetch (recommendations_request (app w) (mood_context s t)))
             (emit (Fetch (analyze_request (app w) t)) w))
            \<lparr>app := (app w)\<lparr>currentEmotion := Some (primary_emotion s)\<rparr>,
             page := (page w)\<lparr>sentimentAnalysis_innerHTML := sentiment_summary nm s,
                                analyzeMoodBtn_disabled := False,
                                analyzeMoodBtn_innerHTML := analyze_default_label\<rparr>\<rparr>"
    by (simp add: mood_busy_def emit_def)
next
  assume a: "js_trim (searchInput_value (page w)) = q" "q \<noteq> []"
    "net (length (fetches (trace w))) (search_request (app w) q (currentEmotion (app w)))
          = HttpResponse st (Some r)" "response_ok st" "\<not> success r"
  have "search_try nm net q (search_busy w) =
     (None, emit (Fetch (search_request (app w) q (currentEmotion (app w)))) (search_busy w))"
    using a by (simp add: search_try_unsuccessful)
  from search_flow_normal [OF a(1,2) this]
  show "performSearch nm net w =
          (emit (Fetch (search_request (app w) q (currentEmotion (app w)))) w)
            \<lparr>page := (page w)\<lparr>searchBtn_disabled := False,
                                searchBtn_innerHTML := search_default_label\<rparr>\<rparr>"
    by (simp add: search_busy_def emit_def)
next
  assume "net (length (fetches (trace w))) (products_request (app w)) = HttpResponse st (Some r)"
    "response_ok st" "\<not> success r"
  then show "loadAllProducts nm net w = emit (Fetch (products_request (app w))) w"
    by (simp add: loadAllProducts_def api_send send_Inr)
next
  assume "net (length (fetches (trace w)))
          (track_request (app w) productId (lit ''view'') (currentEmotion (app w)))
          = HttpResponse sta (Some ra)" "response_ok sta"
      "net (Suc (length (fetches (trace w)))) (similar_request (app w) productId)
          = HttpResponse st (Some r)" "response_ok st" "\<not> success r"
  then show "viewProduct nm net productId w =
          emit (Fetch (similar_request (app w) productId))
            (emit (Fetch (track_request (app w) productId (lit ''view'') (currentEmotion (app w)))) w)"
    by (simp add: viewProduct_def api_send send_Inr)
qed

theorem unsuccessful_envelope_is_ignored_witness:
  "(js_trim (moodInput_value (page example_world)) = lit ''happy'' \<and> lit ''happy'' \<noteq> []
    \<and> scripted [HttpResponse 200 (Some empty_response)] (length (fetches (trace example_world)))
         (analyze_request (app example_world) (lit ''happy'')) = HttpResponse 200 (Some empty_response)
    \<and> response_ok 200 \<and> \<not> success empty_response
    \<and> page (analyzeMoodAndRecommend example_numbers (scripted [HttpResponse 200 (Some empty_response)])
               example_world) = example_page
    \<and> alerts (trace (analyzeMoodAndRecommend example_numbers
               (scripted [HttpResponse 200 (Some empty_response)]) example_world)) = []
    \<and> console_errors (trace (analyzeMoodAndRecommend example_numbers
               (scripted [HttpResponse 200 (Some empty_response)]) example_world)) = [])
   \<and> (scripted [HttpResponse 200 (Some sentiment_response), HttpResponse 200 (Some empty_response)]
         (length (fetches (trace example_world)))
         (analyze_request (app example_world) (lit ''happy'')) = HttpResponse 200 (Some sentiment_response)
    \<and> success sentiment_response \<and> sentiment sentiment_response = Some example_sentiment
    \<and> scripted [HttpResponse 200 (Some sentiment_response), HttpResponse 200 (Some empty_response)]
         (Suc (length (fetches (trace example_world))))
         (recommendations_request (app example_world) (mood_context example_sentiment (lit ''happy'')))
        = HttpResponse 200 (Some empty_response)
    \<and> page (analyzeMoodAndRecommend example_numbers
          (scripted [HttpResponse 200 (Some sentiment_response), HttpResponse 200 (Some empty_response)])
          example_world)
        = example_page\<lparr>sentimentAnalysis_innerHTML := sentiment_summary example_numbers example_sentiment\<rparr>
    \<and> alerts (trace (analyzeMoodAndRecommend example_numbers
          (scripted [HttpResponse 200 (Some sentiment_response), HttpResponse 200 (Some empty_response)])
          example_world)) = []
    \<and> console_errors (trace (analyzeMoodAndRecommend example_numbers
          (scripted [HttpResponse 200 (Some sentiment_response), HttpResponse 200 (Some empty_response)])
          example_world)) = [])
   \<and> (js_trim (searchInput_value (page example_world)) = lit ''tea'' \<and> lit ''tea'' \<noteq> []
    \<and> scripted [HttpResponse 200 (Some empty_response)] (length (fetches (trace example_world)))
         (search_request (app example_world) (lit ''tea'') (currentEmotion (app example_world)))
        = HttpResponse 200 (Some empty_response)
    \<and> page (performSearch example_numbers (scripted [HttpResponse 200 (Some empty_response)])
               example_world) = example_page
    \<and> alerts (trace (performSearch example_numbers (scripted [HttpResponse 200 (Some empty_response)])
               example_world)) = []
    \<and> console_errors (trace (performSearch example_numbers
               (scripted [HttpResponse 200 (Some empty_response)]) example_world)) = [])
   \<and> (scripted [HttpResponse 200 (Some empty_response)] (length (fetches (trace example_world)))
         (products_request (app example_world)) = HttpResponse 200 (Some empty_response)
    \<and> page (loadAllProducts example_numbers (scripted [HttpResponse 200 (Some empty_response)])
               example_world) = example_page
    \<and> alerts (trace (loadAllProducts example_numbers (scripted [HttpResponse 200 (Some empty_response)])
               example_world)) = []
    \<and> console_errors (trace (loadAllProducts example_numbers
               (scripted [HttpResponse 200 (Some empty_response)]) example_world)) = [])
   \<and> (scripted [HttpResponse 200 (Some empty_response), HttpResponse 200 (Some empty_response)]
         (length (fetches (trace example_world)))
         (track_request (app example_world) (lit ''p1'') (lit ''view'') (currentEmotion (app example_world)))
        = HttpResponse 200 (Some empty_response)
    \<and> scripted [HttpResponse 200 (Some empty_response), HttpResponse 200 (Some empty_response)]
         (Suc (length (fetches (trace example_world))))
         (similar_request (app example_world) (lit ''p1'')) = HttpResponse 200 (Some empty_response)
    \<and> page (viewProduct example_numbers
          (scripted [HttpResponse 200 (Some empty_response), HttpResponse 200 (Some empty_response)])
          (lit ''p1'') example_world) = example_page
    \<and> alerts (trace (viewProduct example_numbers
          (scripted [HttpResponse 200 (Some empty_response), HttpResponse 200 (Some empty_response)])
          (lit ''p1'') example_world)) = []
    \<and> console_errors (trace (viewProduct example_numbers
          (scripted [HttpResponse 200 (Some empty_response), HttpResponse 200 (Some empty_response)])
          (lit ''p1'') example_world)) = [])"
  using
    unsuccessful_envelope_is_ignored [where w = example_world and t = "lit ''happy''"
       and q = "lit ''tea''" and nm = example_numbers
       and net = "scripted [HttpResponse 200 (Some empty_response)]" and st = 200
       and r = empty_response]
    unsuccessful_envelope_is_ignored [where w = example_world and t = "lit ''happy''"
       and nm = example_numbers
       and net = "scripted [HttpResponse 200 (Some sentiment_response), HttpResponse 200 (Some empty_response)]"
       and sta = 200 and ra = sentiment_response and s = example_sentiment and st = 200
       and r = empty_response]
    unsuccessful_envelope_is_ignored [where w = example_world and productId = "lit ''p1''"
       and nm = example_numbers
       and net = "scripted [HttpResponse 200 (Some empty_response), HttpResponse 200 (Some empty_response)]"
       and sta = 200 and ra = empty_response and st = 200 and r = empty_response]
  by (simp add: example_inputs)


section \<open>Falsy extras of a product card\<close>

text \<open>
  Claim C10.  A \<^verbatim>\<open>confidence_score\<close> of exactly 0 gives neither the
  \<^verbatim>\<open>recommendation-card\<close> class nor the confidence badge, an absent or empty
  \<^verbatim>\<open>explanation\<close> gives no explanation block, and the whole card is the one rendered with
  the value absent.
\<close>

theorem falsy_extras:
  "confidence_class (Some 0) = [] \<and> confidence_badge nm (Some 0) = []
   \<and> explanation_block None = [] \<and> explanation_block (Some []) = []
   \<and> renderProductCard nm p (x\<lparr>confidence_score := Some 0\<rparr>)
       = renderProductCard nm p (x\<lparr>confidence_score := None\<rparr>)
   \<and> renderProductCard nm p (x\<lparr>explanation := Some []\<rparr>)
       = renderProductCard nm p (x\<lparr>explanation := None\<rparr>)"
  by (simp add: confidence_class_def confidence_badge_def explanation_block_def
        renderProductCard_def card_upper_falsy card_lower_falsy cong: sum.case_cong)


end
